theory Spec2Isabelle
  imports Complex_Main "HOL-Library.Sublist" "HOL-Library.AList"
begin

section \<open>Text functions of the database\<close>

text \<open>
  The migration builds ticket codes from three SQL text functions: the cast of an
  integer to text, \<^verbatim>\<open>LPAD\<close> and \<^verbatim>\<open>TO_CHAR(.., 'YYYY')\<close>, and it counts rows
  with \<^verbatim>\<open>LIKE\<close>. Strings are lists of characters.
\<close>

definition digit_char :: "nat \<Rightarrow> char" where
  "digit_char d = ''0123456789'' ! d"

text \<open>\<^verbatim>\<open>count_num::TEXT\<close>: the decimal digits of a non-negative integer.\<close>

function show_nat :: "nat \<Rightarrow> string" where
  "show_nat n = (if n < 10 then [digit_char n] else show_nat (n div 10) @ [digit_char (n mod 10)])"
  by pat_completeness auto
termination
  by (relation "measure (\<lambda>n. n)") auto

declare show_nat.simps [simp del]

text \<open>
  \<^verbatim>\<open>LPAD(string, length, fill)\<close>: the string is extended on the left with copies of
  \<open>fill\<close> up to \<open>length\<close> characters; a string that is already longer is cut to its first
  \<open>length\<close> characters.
\<close>

definition lpad :: "string \<Rightarrow> nat \<Rightarrow> string \<Rightarrow> string" where
  "lpad s n fill =
     (if n \<le> length s then take n s
      else take (n - length s) (concat (replicate (n - length s) fill)) @ s)"

text \<open>
  \<^verbatim>\<open>TO_CHAR(NOW(), 'YYYY')\<close>: the year in four or more digits. A timestamp is kept as its
  calendar year and the time elapsed within that year.
\<close>

record timestamptz =
  ts_year :: nat
  ts_within_year :: nat

definition year_text :: "nat \<Rightarrow> string" where
  "year_text y = (let s = show_nat y in replicate (4 - length s) (CHR ''0'') @ s)"

definition to_char_YYYY :: "timestamptz \<Rightarrow> string" where
  "to_char_YYYY t = year_text (ts_year t)"

text \<open>
  \<^verbatim>\<open>string LIKE pattern\<close> with the wildcards \<^verbatim>\<open>%\<close> (any sequence of characters) and
  \<^verbatim>\<open>_\<close> (any one character). The only pattern of the migration is
  \<^verbatim>\<open>'CMP-' || year_str || '-%'\<close>, in which the escape character never occurs, so escapes
  are left out: every other pattern character stands for itself.
\<close>

fun sql_like :: "string \<Rightarrow> string \<Rightarrow> bool" where
  "sql_like [] s = (s = [])"
| "sql_like (p # ps) [] = (p = CHR ''%'' \<and> sql_like ps [])"
| "sql_like (p # ps) (c # cs) =
     (if p = CHR ''%'' then sql_like ps (c # cs) \<or> sql_like (p # ps) cs
      else if p = CHR ''_'' then sql_like ps cs
      else p = c \<and> sql_like ps cs)"

section \<open>Schema: enumerations, the complaints table, roles\<close>

type_synonym uuid = nat

datatype app_role = student | admin

datatype complaint_priority = Low | Medium | High

datatype complaint_status = Pending | In_Progress | Resolved | Withdrawn

text \<open>
  A stored row of \<^verbatim>\<open>public.complaints\<close>. Columns declared \<^verbatim>\<open>NOT NULL\<close> hold a value,
  the others an option (\<open>None\<close> is SQL \<^verbatim>\<open>NULL\<close>). The primary key column \<^verbatim>\<open>id\<close> is
  \<open>id_col\<close>. \<^verbatim>\<open>DECIMAL(3,2)\<close> values are exact decimals, kept as rationals.
\<close>

record complaint =
  id_col :: uuid
  complaint_id :: string
  student_id :: uuid
  title :: string
  description :: string
  category :: "string option"
  ai_suggested_category :: "string option"
  priority :: "complaint_priority option"
  ai_priority_score :: "rat option"
  status :: complaint_status
  admin_response :: "string option"
  ai_suggested_response :: "string option"
  created_at :: timestamptz
  updated_at :: timestamptz

text \<open>
  The database state the claims depend on: the registered users (\<^verbatim>\<open>auth.users\<close>), the
  role assignments and the complaints in insertion order.
\<close>

record db =
  auth_users :: "uuid list"
  user_roles :: "(uuid \<times> app_role) list"
  complaints :: "complaint list"

datatype db_error =
    not_null_violation string
  | unique_violation string
  | foreign_key_violation string
  | row_level_security_violation
  | invalid_enum_value string
  | numeric_field_overflow
  | integer_out_of_range

text \<open>\<^verbatim>\<open>public.has_role(_user_id, _role)\<close>; \<open>None\<close> is the anonymous caller (\<^verbatim>\<open>auth.uid()\<close> is NULL).\<close>

definition has_role :: "db \<Rightarrow> uuid option \<Rightarrow> app_role \<Rightarrow> bool" where
  "has_role d u r = (case u of None \<Rightarrow> False | Some i \<Rightarrow> (i, r) \<in> set (user_roles d))"

section \<open>Ticket codes: generate_complaint_id and set_complaint_id\<close>

text \<open>
  \<^verbatim>\<open>generate_complaint_id()\<close>. \<open>rows\<close> are the rows of \<^verbatim>\<open>public.complaints\<close> the
  function's \<^verbatim>\<open>SELECT\<close> sees, \<open>now\<close> is \<^verbatim>\<open>NOW()\<close>. \<open>count_num\<close> is declared
  \<^verbatim>\<open>INTEGER\<close>: a count beyond \<open>2^31 - 1\<close> raises.
\<close>

definition year_pattern :: "string \<Rightarrow> string" where
  "year_pattern year_str = ''CMP-'' @ year_str @ ''-%''"

definition generate_complaint_id :: "timestamptz \<Rightarrow> complaint list \<Rightarrow> db_error + string" where
  "generate_complaint_id now rows =
     (let year_str = to_char_YYYY now;
          count_num = int (length (filter (\<lambda>r. sql_like (year_pattern year_str) (complaint_id r)) rows)) + 1
      in if count_num > 2147483647 then Inl integer_out_of_range
         else Inr (''CMP-'' @ year_str @ ''-'' @ lpad (show_nat (nat count_num)) 3 ''0''))"

text \<open>
  \<^verbatim>\<open>set_complaint_id()\<close>, the \<^verbatim>\<open>BEFORE INSERT\<close> trigger, on the \<open>complaint_id\<close> of the
  new row (\<open>None\<close> is NULL).
\<close>

definition set_complaint_id ::
  "timestamptz \<Rightarrow> complaint list \<Rightarrow> string option \<Rightarrow> db_error + string" where
  "set_complaint_id now rows new_complaint_id =
     (if new_complaint_id = None \<or> new_complaint_id = Some [] then generate_complaint_id now rows
      else Inr (the new_complaint_id))"

section \<open>INSERT into complaints\<close>

text \<open>
  The object given to \<^verbatim>\<open>supabase.from("complaints").insert(..)\<close>: one optional value
  per column. \<open>None\<close> is a key that is absent from the object (a JavaScript
  \<^verbatim>\<open>undefined\<close> is dropped when the object is serialised), for which the column takes
  its \<^verbatim>\<open>DEFAULT\<close>, or NULL when it has none. Enumeration columns arrive as text.
\<close>

record complaints_insert =
  ins_id :: "uuid option"
  ins_complaint_id :: "string option"
  ins_student_id :: "uuid option"
  ins_title :: "string option"
  ins_description :: "string option"
  ins_category :: "string option"
  ins_ai_suggested_category :: "string option"
  ins_priority :: "string option"
  ins_ai_priority_score :: "rat option"
  ins_status :: "string option"
  ins_admin_response :: "string option"
  ins_ai_suggested_response :: "string option"
  ins_created_at :: "timestamptz option"
  ins_updated_at :: "timestamptz option"

text \<open>Input of the enumeration types \<^verbatim>\<open>complaint_priority\<close> and \<^verbatim>\<open>complaint_status\<close>.\<close>

definition complaint_priority_in :: "string \<Rightarrow> db_error + complaint_priority" where
  "complaint_priority_in s =
     (if s = ''Low'' then Inr Low
      else if s = ''Medium'' then Inr Medium
      else if s = ''High'' then Inr High
      else Inl (invalid_enum_value s))"

definition complaint_priority_out :: "complaint_priority \<Rightarrow> string" where
  "complaint_priority_out p = (case p of Low \<Rightarrow> ''Low'' | Medium \<Rightarrow> ''Medium'' | High \<Rightarrow> ''High'')"

definition complaint_status_in :: "string \<Rightarrow> db_error + complaint_status" where
  "complaint_status_in s =
     (if s = ''Pending'' then Inr Pending
      else if s = ''In Progress'' then Inr In_Progress
      else if s = ''Resolved'' then Inr Resolved
      else if s = ''Withdrawn'' then Inr Withdrawn
      else Inl (invalid_enum_value s))"

text \<open>
  A value stored in a \<^verbatim>\<open>DECIMAL(3,2)\<close> column is rounded to two fractional digits (ties
  away from zero); a rounded value with more than one digit before the decimal point
  raises.
\<close>

definition round_scale_2 :: "rat \<Rightarrow> rat" where
  "round_scale_2 x =
     (if 0 \<le> x then of_int \<lfloor>x * 100 + 1 / 2\<rfloor> / 100
      else - (of_int \<lfloor>- x * 100 + 1 / 2\<rfloor> / 100))"

definition decimal_3_2 :: "rat \<Rightarrow> db_error + rat" where
  "decimal_3_2 x =
     (let r = round_scale_2 x in if 10 \<le> \<bar>r\<bar> then Inl numeric_field_overflow else Inr r)"

text \<open>
  The policy \<^verbatim>\<open>"Students can insert their own complaints"\<close>, the only one for
  \<^verbatim>\<open>INSERT\<close>: \<^verbatim>\<open>WITH CHECK (auth.uid() = student_id)\<close>. A comparison with NULL is not
  true.
\<close>

definition insert_check :: "uuid option \<Rightarrow> uuid option \<Rightarrow> bool" where
  "insert_check uid new_student_id = (uid \<noteq> None \<and> new_student_id \<noteq> None \<and> uid = new_student_id)"

text \<open>Sequencing of steps that may raise: the first error ends the statement.\<close>

definition and_then :: "'e + 'a \<Rightarrow> ('a \<Rightarrow> 'e + 'b) \<Rightarrow> 'e + 'b" where
  "and_then m f = (case m of Inl e \<Rightarrow> Inl e | Inr x \<Rightarrow> f x)"

definition require :: "bool \<Rightarrow> 'e \<Rightarrow> 'e + unit" where
  "require ok e = (if ok then Inr () else Inl e)"

text \<open>Input conversion with the column defaults.\<close>

definition priority_value :: "string option \<Rightarrow> db_error + complaint_priority option" where
  "priority_value v =
     (case v of None \<Rightarrow> Inr (Some Medium)
      | Some s \<Rightarrow> and_then (complaint_priority_in s) (\<lambda>x. Inr (Some x)))"

definition score_value :: "rat option \<Rightarrow> db_error + rat option" where
  "score_value v = (case v of None \<Rightarrow> Inr None | Some x \<Rightarrow> and_then (decimal_3_2 x) (\<lambda>r. Inr (Some r)))"

definition status_value :: "string option \<Rightarrow> db_error + complaint_status" where
  "status_value v = (case v of None \<Rightarrow> Inr Pending | Some s \<Rightarrow> complaint_status_in s)"

text \<open>
  One \<^verbatim>\<open>INSERT\<close> of one row by the caller \<open>uid\<close> (\<^verbatim>\<open>auth.uid()\<close>) at time \<open>now\<close>;
  \<open>fresh\<close> is the value of \<^verbatim>\<open>gen_random_uuid()\<close>. \<open>visible\<close> are the rows the trigger's
  \<^verbatim>\<open>SELECT\<close> sees: all of \<open>complaints d\<close> when nothing runs beside the statement, the
  rows committed before its snapshot otherwise. The steps follow the executor. The new
  row is formed first: input conversion and defaults, the \<^verbatim>\<open>BEFORE INSERT\<close> trigger,
  the row-level security check and the \<^verbatim>\<open>NOT NULL\<close> constraints.
\<close>

definition new_complaint ::
  "uuid option \<Rightarrow> timestamptz \<Rightarrow> uuid \<Rightarrow> complaint list \<Rightarrow> complaints_insert \<Rightarrow> db_error + complaint" where
  "new_complaint uid now fresh visible p =
     and_then (priority_value (ins_priority p)) (\<lambda>new_priority.
     and_then (score_value (ins_ai_priority_score p)) (\<lambda>new_score.
     and_then (status_value (ins_status p)) (\<lambda>new_status.
     and_then (set_complaint_id now visible (ins_complaint_id p)) (\<lambda>new_complaint_id.
     and_then (require (insert_check uid (ins_student_id p)) row_level_security_violation) (\<lambda>_.
     and_then (require (ins_student_id p \<noteq> None) (not_null_violation ''student_id'')) (\<lambda>_.
     and_then (require (ins_title p \<noteq> None) (not_null_violation ''title'')) (\<lambda>_.
     and_then (require (ins_description p \<noteq> None) (not_null_violation ''description'')) (\<lambda>_.
     Inr \<lparr>id_col = (case ins_id p of None \<Rightarrow> fresh | Some i \<Rightarrow> i),
          complaint_id = new_complaint_id,
          student_id = the (ins_student_id p),
          title = the (ins_title p),
          description = the (ins_description p),
          category = ins_category p,
          ai_suggested_category = ins_ai_suggested_category p,
          priority = new_priority,
          ai_priority_score = new_score,
          status = new_status,
          admin_response = ins_admin_response p,
          ai_suggested_response = ins_ai_suggested_response p,
          created_at = (case ins_created_at p of None \<Rightarrow> now | Some t \<Rightarrow> t),
          updated_at = (case ins_updated_at p of None \<Rightarrow> now | Some t \<Rightarrow> t)\<rparr>))))))))"

text \<open>
  Then the row is written: the unique indexes on \<^verbatim>\<open>id\<close> and \<^verbatim>\<open>complaint_id\<close> are
  checked against the table as it is at that moment, and the foreign key against
  \<^verbatim>\<open>auth.users\<close>.
\<close>

definition insert_complaint ::
  "uuid option \<Rightarrow> timestamptz \<Rightarrow> uuid \<Rightarrow> complaint list \<Rightarrow> complaints_insert \<Rightarrow> db \<Rightarrow> db_error + db" where
  "insert_complaint uid now fresh visible p d =
     and_then (new_complaint uid now fresh visible p) (\<lambda>new.
     and_then (require (id_col new \<notin> set (map id_col (complaints d)))
                 (unique_violation ''complaints_pkey'')) (\<lambda>_.
     and_then (require (complaint_id new \<notin> set (map complaint_id (complaints d)))
                 (unique_violation ''complaints_complaint_id_key'')) (\<lambda>_.
     and_then (require (student_id new \<in> set (auth_users d))
                 (foreign_key_violation ''complaints_student_id_fkey'')) (\<lambda>_.
     Inr (d\<lparr>complaints := complaints d @ [new]\<rparr>)))))"

section \<open>UPDATE of complaints under row-level security\<close>

text \<open>
  The two \<^verbatim>\<open>FOR UPDATE\<close> policies of the table. Both are permissive, so a row may be
  updated when one of them holds.
\<close>

definition students_can_update :: "uuid option \<Rightarrow> complaint \<Rightarrow> bool" where
  "students_can_update uid r = (uid = Some (student_id r) \<and> status r = Pending)"

definition admins_can_update :: "db \<Rightarrow> uuid option \<Rightarrow> bool" where
  "admins_can_update d uid = has_role d uid admin"

definition update_policy :: "db \<Rightarrow> uuid option \<Rightarrow> complaint \<Rightarrow> bool" where
  "update_policy d uid r = (students_can_update uid r \<or> admins_can_update d uid)"

text \<open>
  The object given to \<^verbatim>\<open>.update(..)\<close>: \<open>None\<close> is an absent key, whose column keeps its
  value.
\<close>

record complaints_update =
  upd_complaint_id :: "string option"
  upd_student_id :: "uuid option"
  upd_title :: "string option"
  upd_description :: "string option"
  upd_category :: "string option"
  upd_ai_suggested_category :: "string option"
  upd_priority :: "complaint_priority option"
  upd_ai_priority_score :: "rat option"
  upd_status :: "complaint_status option"
  upd_admin_response :: "string option"
  upd_ai_suggested_response :: "string option"

definition no_change :: complaints_update where
  "no_change =
     \<lparr>upd_complaint_id = None, upd_student_id = None, upd_title = None, upd_description = None,
      upd_category = None, upd_ai_suggested_category = None, upd_priority = None,
      upd_ai_priority_score = None, upd_status = None, upd_admin_response = None,
      upd_ai_suggested_response = None\<rparr>"

text \<open>
  The assignments of the \<^verbatim>\<open>SET\<close> clause. A value assigned to \<open>ai_priority_score\<close> is
  converted to the column's type \<^verbatim>\<open>DECIMAL(3,2)\<close> as on insert: it is rounded to two
  fractional digits, and a value that does not fit raises. The key \<^verbatim>\<open>id\<close> and the two
  timestamps are not among the columns an update sets here.
\<close>

definition set_columns :: "complaints_update \<Rightarrow> complaint \<Rightarrow> db_error + complaint" where
  "set_columns u r =
     and_then (case upd_ai_priority_score u of
                 None \<Rightarrow> Inr (ai_priority_score r)
               | Some x \<Rightarrow> score_value (Some x)) (\<lambda>new_score.
     Inr (r\<lparr>complaint_id := (case upd_complaint_id u of None \<Rightarrow> complaint_id r | Some v \<Rightarrow> v),
       student_id := (case upd_student_id u of None \<Rightarrow> student_id r | Some v \<Rightarrow> v),
       title := (case upd_title u of None \<Rightarrow> title r | Some v \<Rightarrow> v),
       description := (case upd_description u of None \<Rightarrow> description r | Some v \<Rightarrow> v),
       category := (case upd_category u of None \<Rightarrow> category r | Some v \<Rightarrow> Some v),
       ai_suggested_category :=
         (case upd_ai_suggested_category u of None \<Rightarrow> ai_suggested_category r | Some v \<Rightarrow> Some v),
       priority := (case upd_priority u of None \<Rightarrow> priority r | Some v \<Rightarrow> Some v),
       ai_priority_score := new_score,
       status := (case upd_status u of None \<Rightarrow> status r | Some v \<Rightarrow> v),
       admin_response := (case upd_admin_response u of None \<Rightarrow> admin_response r | Some v \<Rightarrow> Some v),
       ai_suggested_response :=
         (case upd_ai_suggested_response u of None \<Rightarrow> ai_suggested_response r | Some v \<Rightarrow> Some v)\<rparr>))"

text \<open>\<^verbatim>\<open>update_updated_at_column()\<close>, the \<^verbatim>\<open>BEFORE UPDATE\<close> trigger.\<close>

definition update_updated_at_column :: "timestamptz \<Rightarrow> complaint \<Rightarrow> complaint" where
  "update_updated_at_column now new = new\<lparr>updated_at := now\<rparr>"

text \<open>
  What an \<^verbatim>\<open>UPDATE\<close> does to one row its \<^verbatim>\<open>WHERE\<close> clause selects. The new values are
  converted to the column types first, and a value that does not fit raises. A row that
  fails the \<^verbatim>\<open>USING\<close> expressions is not visible to the statement and is skipped
  without an error. The policies name no \<^verbatim>\<open>WITH CHECK\<close> expression, so the
  \<^verbatim>\<open>USING\<close> expressions are also checked on the new row, and there a failure is an
  error. The unique index and the foreign key are consulted when their column changes.
\<close>

datatype row_update = skipped | updated complaint

definition update_row ::
  "db \<Rightarrow> uuid option \<Rightarrow> timestamptz \<Rightarrow> complaints_update \<Rightarrow> complaint \<Rightarrow> db_error + row_update" where
  "update_row d uid now u r =
     and_then (set_columns u r) (\<lambda>assigned.
       if \<not> update_policy d uid r then Inr skipped
       else
         (let new = update_updated_at_column now assigned in
          if \<not> update_policy d uid new then Inl row_level_security_violation
          else if complaint_id new \<noteq> complaint_id r \<and>
                  complaint_id new \<in> set (map complaint_id (complaints d))
            then Inl (unique_violation ''complaints_complaint_id_key'')
          else if student_id new \<noteq> student_id r \<and> student_id new \<notin> set (auth_users d)
            then Inl (foreign_key_violation ''complaints_student_id_fkey'')
          else Inr (updated new)))"

text \<open>
  \<^verbatim>\<open>UPDATE complaints SET .. WHERE id = target\<close>: every row with that key is
  updated; the first error aborts the statement.
\<close>

fun update_rows ::
  "db \<Rightarrow> uuid option \<Rightarrow> timestamptz \<Rightarrow> uuid \<Rightarrow> complaints_update \<Rightarrow> complaint list \<Rightarrow>
   db_error + complaint list" where
  "update_rows d uid now target u [] = Inr []"
| "update_rows d uid now target u (r # rs) =
     (case (if id_col r = target then update_row d uid now u r else Inr skipped) of
        Inl e \<Rightarrow> Inl e
      | Inr res \<Rightarrow>
          (case update_rows d uid now target u rs of
             Inl e \<Rightarrow> Inl e
           | Inr rs' \<Rightarrow> Inr ((case res of skipped \<Rightarrow> r | updated new \<Rightarrow> new) # rs')))"

definition update_complaints ::
  "uuid option \<Rightarrow> timestamptz \<Rightarrow> uuid \<Rightarrow> complaints_update \<Rightarrow> db \<Rightarrow> db_error + db" where
  "update_complaints uid now target u d =
     (case update_rows d uid now target u (complaints d) of
        Inl e \<Rightarrow> Inl e
      | Inr rs \<Rightarrow> Inr (d\<lparr>complaints := rs\<rparr>))"

section \<open>The admin dashboard: updateComplaint\<close>

datatype toast = toast_success | toast_error

text \<open>
  \<^verbatim>\<open>updateComplaint(id, status, response)\<close> writes the two fields
  \<^verbatim>\<open>{ status, admin_response: response }\<close> to the row with the given key and shows a toast.
\<close>

definition updateComplaint ::
  "uuid option \<Rightarrow> timestamptz \<Rightarrow> uuid \<Rightarrow> complaint_status \<Rightarrow> string \<Rightarrow> db \<Rightarrow> db \<times> toast" where
  "updateComplaint uid now target new_status response d =
     (case update_complaints uid now target
             (no_change\<lparr>upd_status := Some new_status, upd_admin_response := Some response\<rparr>) d of
        Inl e \<Rightarrow> (d, toast_error)
      | Inr d' \<Rightarrow> (d', toast_success))"

section \<open>The complaint form: complaintSchema and handleSubmit\<close>

text \<open>
  \<^verbatim>\<open>String.prototype.trim\<close> removes white space and line terminators from both ends.
  Among the characters of a HOL string these are tab, line feed, vertical tab, form feed,
  carriage return, space and the no-break space.
\<close>

definition js_whitespace :: "char \<Rightarrow> bool" where
  "js_whitespace c =
     (c \<in> set [CHR 0x09, CHR 0x0A, CHR 0x0B, CHR 0x0C, CHR 0x0D, CHR 0x20, CHR 0xA0])"

definition js_trim :: "string \<Rightarrow> string" where
  "js_trim s = rev (dropWhile js_whitespace (rev (dropWhile js_whitespace s)))"

text \<open>
  The checks of a \<^verbatim>\<open>z.string()\<close> schema run in the order they were chained.
  \<^verbatim>\<open>.trim()\<close> replaces the value, so the checks after it see the trimmed string;
  \<^verbatim>\<open>.min(n, message)\<close> and \<^verbatim>\<open>.max(n, message)\<close> compare the length and add an issue
  with their message; no check stops the ones after it.
\<close>

datatype z_check = z_trim | z_min nat string | z_max nat string

fun z_string :: "z_check list \<Rightarrow> string \<Rightarrow> string \<times> string list" where
  "z_string [] s = (s, [])"
| "z_string (z_trim # cs) s = z_string cs (js_trim s)"
| "z_string (z_min n message # cs) s =
     (case z_string cs s of (v, issues) \<Rightarrow> (v, (if length s < n then [message] else []) @ issues))"
| "z_string (z_max n message # cs) s =
     (case z_string cs s of (v, issues) \<Rightarrow> (v, (if n < length s then [message] else []) @ issues))"

record complaint_form =
  form_title :: string
  form_description :: string
  form_category :: string

definition title_schema :: "z_check list" where
  "title_schema = [z_trim, z_min 5 ''Title must be at least 5 characters'', z_max 200 ''Title too long'']"

definition description_schema :: "z_check list" where
  "description_schema =
     [z_trim, z_min 20 ''Description must be at least 20 characters'', z_max 2000 ''Description too long'']"

definition category_schema :: "z_check list" where
  "category_schema = [z_min 1 ''Please select a category'']"

text \<open>
  \<^verbatim>\<open>complaintSchema.safeParse({ title, description, category })\<close>: the issues of the three
  fields in the order of the schema's keys, each with the field it belongs to
  (\<^verbatim>\<open>path[0]\<close>), or the parsed data when there is none.
\<close>

definition complaintSchema_safeParse :: "complaint_form \<Rightarrow> (string \<times> string) list + complaint_form" where
  "complaintSchema_safeParse f =
     (case z_string title_schema (form_title f) of (t, t_issues) \<Rightarrow>
      case z_string description_schema (form_description f) of (dsc, d_issues) \<Rightarrow>
      case z_string category_schema (form_category f) of (c, c_issues) \<Rightarrow>
        (let issues = map (Pair ''title'') t_issues @ map (Pair ''description'') d_issues
                      @ map (Pair ''category'') c_issues
         in if issues = [] then Inr \<lparr>form_title = t, form_description = dsc, form_category = c\<rparr>
            else Inl issues))"

text \<open>The options of the form's category selector.\<close>

definition categories :: "string list" where
  "categories = [''Infrastructure'', ''Faculty'', ''Curriculum'', ''Administration'', ''Facilities'', ''Other'']"

text \<open>
  \<^verbatim>\<open>newErrors\<close>, the record handleSubmit builds from the issues:
  \<^verbatim>\<open>newErrors[err.path[0]] = err.message\<close> for each issue in turn. The record is the
  list of its properties.
\<close>

definition newErrors :: "(string \<times> string) list \<Rightarrow> (string \<times> string) list" where
  "newErrors issues = foldl (\<lambda>m (k, v). AList.update k v m) [] issues"

text \<open>
  \<^verbatim>\<open>errors.title\<close>, \<^verbatim>\<open>errors.description\<close> and \<^verbatim>\<open>errors.category\<close> after
  handleSubmit has validated the form: handleSubmit empties \<^verbatim>\<open>errors\<close> and, when
  validation fails, sets it to \<^verbatim>\<open>newErrors\<close>.
\<close>

definition field_error :: "complaint_form \<Rightarrow> string \<Rightarrow> string option" where
  "field_error f k =
     (case complaintSchema_safeParse f of Inl issues \<Rightarrow> map_of (newErrors issues) k | Inr v \<Rightarrow> None)"

text \<open>
  What \<^verbatim>\<open>supabase.functions.invoke("analyze-complaint", ..)\<close> resolves to: \<open>data\<close> and
  \<open>error\<close>, either of which may be null. \<open>functionData\<close> is read at the four properties
  below; \<open>None\<close> is a property that is absent.
\<close>

record function_data =
  fd_suggestedCategory :: "string option"
  fd_priority :: "string option"
  fd_priorityScore :: "rat option"
  fd_suggestedResponse :: "string option"

record invoke_result =
  functionData :: "function_data option"
  functionError :: "string option"

text \<open>The object handleSubmit inserts; \<open>user\<close> is \<^verbatim>\<open>user?.id\<close>.\<close>

definition submitted_row :: "uuid option \<Rightarrow> complaint_form \<Rightarrow> function_data \<Rightarrow> complaints_insert" where
  "submitted_row user v fd =
     \<lparr>ins_id = None,
      ins_complaint_id = Some [],
      ins_student_id = user,
      ins_title = Some (form_title v),
      ins_description = Some (form_description v),
      ins_category = Some (form_category v),
      ins_ai_suggested_category = fd_suggestedCategory fd,
      ins_priority = fd_priority fd,
      ins_ai_priority_score = fd_priorityScore fd,
      ins_status = None,
      ins_admin_response = None,
      ins_ai_suggested_response = fd_suggestedResponse fd,
      ins_created_at = None,
      ins_updated_at = None\<rparr>"

datatype submit_result =
    validation_failed "(string \<times> string) list"
  | submit_failed
  | submit_succeeded

text \<open>
  \<^verbatim>\<open>handleSubmit\<close> for the signed-in user \<open>user\<close> (whose token the database sees as
  \<^verbatim>\<open>auth.uid()\<close>), the form state \<open>f\<close> and the outcome \<open>ir\<close> of the classification
  call. Validation failure returns before any call. Inside the \<^verbatim>\<open>try\<close>, a non-null
  \<open>functionError\<close> is thrown, reading a property of a null \<open>functionData\<close> throws, and
  an insert error is thrown; the \<^verbatim>\<open>catch\<close> shows the error toast.
\<close>

definition handleSubmit ::
  "uuid option \<Rightarrow> timestamptz \<Rightarrow> uuid \<Rightarrow> complaint list \<Rightarrow> complaint_form \<Rightarrow> invoke_result \<Rightarrow> db \<Rightarrow>
   db \<times> submit_result" where
  "handleSubmit user now fresh visible f ir d =
     (case complaintSchema_safeParse f of
        Inl issues \<Rightarrow> (d, validation_failed (newErrors issues))
      | Inr v \<Rightarrow>
          (case functionError ir of
             Some e \<Rightarrow> (d, submit_failed)
           | None \<Rightarrow>
               (case functionData ir of
                  None \<Rightarrow> (d, submit_failed)
                | Some fd \<Rightarrow>
                    (case insert_complaint user now fresh visible (submitted_row user v fd) d of
                       Inl e \<Rightarrow> (d, submit_failed)
                     | Inr d' \<Rightarrow> (d', submit_succeeded)))))"

section \<open>Histories of the complaints table\<close>

text \<open>
  The two \<^verbatim>\<open>FOR SELECT\<close> policies of the table: a caller sees their own complaints, an
  admin sees all. \<^verbatim>\<open>generate_complaint_id()\<close> and \<^verbatim>\<open>set_complaint_id()\<close> are not
  \<^verbatim>\<open>SECURITY DEFINER\<close>, so the trigger's \<^verbatim>\<open>SELECT COUNT(*)\<close> runs with the rights
  of the caller of the \<^verbatim>\<open>INSERT\<close> and counts among the rows these policies show that
  caller.
\<close>

definition students_can_view :: "uuid option \<Rightarrow> complaint \<Rightarrow> bool" where
  "students_can_view uid r = (uid = Some (student_id r))"

definition admins_can_view :: "db \<Rightarrow> uuid option \<Rightarrow> bool" where
  "admins_can_view d uid = has_role d uid admin"

definition select_policy :: "db \<Rightarrow> uuid option \<Rightarrow> complaint \<Rightarrow> bool" where
  "select_policy d uid r = (students_can_view uid r \<or> admins_can_view d uid)"

definition caller_view :: "db \<Rightarrow> uuid option \<Rightarrow> complaint list \<Rightarrow> complaint list" where
  "caller_view d uid rows = filter (select_policy d uid) rows"

text \<open>
  The states the table reaches from the empty table.

  In \<open>inserted\<close> a step is any write the database admits: an \<^verbatim>\<open>INSERT\<close> of any row by any
  caller, whatever rows its trigger sees; an \<^verbatim>\<open>UPDATE\<close> by any caller of any of the
  columns an update sets here, in the row with a given key; and the removal of a user's
  complaints when the user is deleted (\<^verbatim>\<open>ON DELETE CASCADE\<close>).

  In \<open>submitted\<close> a step is one of the two writes the application makes: a run of
  handleSubmit or a run of updateComplaint. The rows \<open>visible\<close> to the trigger of a
  submission are the rows the \<^verbatim>\<open>SELECT\<close> policies show the caller, as they were
  committed before the statement's snapshot. These writes add rows at the end and never
  change or remove a ticket code, so the ticket codes of the visible rows are, in order,
  some of the ticket codes present when the new row is written; that is all the step
  asks of \<open>visible\<close>.

  Users and roles may change between the steps.
\<close>

inductive inserted :: "db \<Rightarrow> bool" where
  inserted_empty: "complaints d = [] \<Longrightarrow> inserted d"
| inserted_other: "inserted d \<Longrightarrow> complaints d' = complaints d \<Longrightarrow> inserted d'"
| inserted_insert: "inserted d \<Longrightarrow>
     insert_complaint uid now fresh visible p d = Inr d' \<Longrightarrow> inserted d'"
| inserted_update: "inserted d \<Longrightarrow>
     update_complaints uid now target u d = Inr d' \<Longrightarrow> inserted d'"
| inserted_delete: "inserted d \<Longrightarrow>
     complaints d' = filter (\<lambda>r. student_id r \<noteq> deleted_user) (complaints d) \<Longrightarrow> inserted d'"

inductive submitted :: "db \<Rightarrow> bool" where
  submitted_empty: "complaints d = [] \<Longrightarrow> submitted d"
| submitted_other: "submitted d \<Longrightarrow> complaints d' = complaints d \<Longrightarrow> submitted d'"
| submitted_update: "submitted d \<Longrightarrow>
     updateComplaint uid now target new_status response d = (d', t) \<Longrightarrow> submitted d'"
| submitted_step: "submitted d \<Longrightarrow>
     subseq (map complaint_id visible) (map complaint_id (complaints d)) \<Longrightarrow>
     handleSubmit user now fresh visible f ir d = (d', res) \<Longrightarrow> submitted d'"

definition ticket_code :: "nat \<Rightarrow> nat \<Rightarrow> string" where
  "ticket_code y n = ''CMP-'' @ year_text y @ ''-'' @ lpad (show_nat n) 3 ''0''"

definition rows_of_year :: "nat \<Rightarrow> complaint list \<Rightarrow> complaint list" where
  "rows_of_year y rows = filter (\<lambda>r. ts_year (created_at r) = y) rows"

definition is_digit :: "char \<Rightarrow> bool" where
  "is_digit c = (c \<in> set ''0123456789'')"

text \<open>\<^verbatim>\<open>CMP-<year>-NNN\<close>: the prefix, the year, a hyphen and exactly three digits.\<close>

definition is_ticket_code :: "nat \<Rightarrow> string \<Rightarrow> bool" where
  "is_ticket_code y c =
     (let p = ''CMP-'' @ year_text y @ ''-'' in
      take (length p) c = p \<and> length c = length p + 3 \<and> list_all is_digit (drop (length p) c))"

text \<open>What the ticket codes of a year begin with.\<close>

definition year_prefix :: "nat \<Rightarrow> string" where
  "year_prefix y = ''CMP-'' @ year_text y @ ''-''"

text \<open>The number a string of decimal digits denotes.\<close>

definition digit_value :: "char \<Rightarrow> nat" where
  "digit_value c = of_char c - 48"

definition digits_value :: "string \<Rightarrow> nat" where
  "digits_value s = foldl (\<lambda>a c. 10 * a + digit_value c) 0 s"

text \<open>
  Zero-padding to three digits as the specification words it: zeros are put in front of
  a shorter string, and a longer one is left whole.
\<close>

definition zero_pad_3 :: "string \<Rightarrow> string" where
  "zero_pad_3 s = replicate (3 - length s) (CHR ''0'') @ s"

section \<open>The edge function analyze-complaint\<close>

text \<open>
  JSON values. An object is the list of its properties; \<open>None\<close> of type \<open>json option\<close>
  is JavaScript's \<^verbatim>\<open>undefined\<close>.
\<close>

datatype json =
    JNull
  | JBool bool
  | JNum rat
  | JStr string
  | JArr "json list"
  | JObj "(string \<times> json) list"

text \<open>
  Reading the property \<open>k\<close> (one of \<^verbatim>\<open>choices\<close>, \<^verbatim>\<open>message\<close>, \<^verbatim>\<open>tool_calls\<close>,
  \<^verbatim>\<open>function\<close>, \<^verbatim>\<open>arguments\<close>) and the element \<^verbatim>\<open>[0]\<close> of a value that is not null.
\<close>

fun get_prop :: "string \<Rightarrow> json \<Rightarrow> json option" where
  "get_prop k (JObj kvs) = map_of kvs k"
| "get_prop k v = None"

fun elem0 :: "json \<Rightarrow> json option" where
  "elem0 (JArr xs) = (case xs of [] \<Rightarrow> None | x # _ \<Rightarrow> Some x)"
| "elem0 (JStr s) = (case s of [] \<Rightarrow> None | c # _ \<Rightarrow> Some (JStr [c]))"
| "elem0 (JObj kvs) = map_of kvs ''0''"
| "elem0 v = None"

text \<open>Optional chaining \<^verbatim>\<open>a?.x\<close>: \<^verbatim>\<open>undefined\<close> when \<open>a\<close> is null or undefined.\<close>

fun opt_chain :: "(json \<Rightarrow> json option) \<Rightarrow> json option \<Rightarrow> json option" where
  "opt_chain f None = None"
| "opt_chain f (Some JNull) = None"
| "opt_chain f (Some v) = f v"

text \<open>The values \<^verbatim>\<open>!v\<close> is true for.\<close>

fun falsy :: "json option \<Rightarrow> bool" where
  "falsy None = True"
| "falsy (Some JNull) = True"
| "falsy (Some (JBool b)) = (\<not> b)"
| "falsy (Some (JNum x)) = (x = 0)"
| "falsy (Some (JStr s)) = (s = [])"
| "falsy (Some v) = False"

text \<open>
  What one request meets: its method, the outcome of \<^verbatim>\<open>await req.json()\<close>, the
  environment variable, and the outcome of the \<^verbatim>\<open>fetch\<close> to the AI gateway with the
  status, text and JSON of its response. \<open>Inl m\<close> is a rejection with an error of
  message \<open>m\<close>.
\<close>

record gateway_response =
  resp_status :: nat
  resp_text :: "string + string"
  resp_json :: "string + json"

record request_env =
  req_method :: string
  req_json :: "string + json"
  LOVABLE_API_KEY :: "string option"
  fetch_result :: "string + gateway_response"

record response =
  status_code :: nat
  body :: "json option"

definition error_body :: "string \<Rightarrow> json option" where
  "error_body m = Some (JObj [(''error'', JStr m)])"

text \<open>
  Destructuring null and reading a property of null throw a \<^verbatim>\<open>TypeError\<close>, whose message
  is the engine's; one fixed text stands for it.
\<close>

definition TypeError_message :: string where
  "TypeError_message = ''TypeError''"

text \<open>\<^verbatim>\<open>data.choices?.[0]?.message?.tool_calls?.[0]\<close> for \<open>data\<close> that is not null.\<close>

definition first_tool_call :: "json \<Rightarrow> json option" where
  "first_tool_call data =
     opt_chain elem0 (opt_chain (get_prop ''tool_calls'') (opt_chain (get_prop ''message'')
       (opt_chain elem0 (get_prop ''choices'' data))))"

text \<open>
  The body of the \<^verbatim>\<open>try\<close> block: \<open>Inl m\<close> is a thrown error with message \<open>m\<close>, \<open>Inr\<close> a
  returned response. \<open>JSON_parse\<close> is \<^verbatim>\<open>JSON.parse\<close> applied to the value of
  \<^verbatim>\<open>toolCall.function.arguments\<close>.
\<close>

definition analyze :: "(json \<Rightarrow> string + json) \<Rightarrow> request_env \<Rightarrow> string + response" where
  "analyze JSON_parse env =
     (case req_json env of
        Inl m \<Rightarrow> Inl m
      | Inr request_body \<Rightarrow>
     (if request_body = JNull then Inl TypeError_message
      else if LOVABLE_API_KEY env = None \<or> LOVABLE_API_KEY env = Some []
        then Inl ''LOVABLE_API_KEY is not configured''
      else
     (case fetch_result env of
        Inl m \<Rightarrow> Inl m
      | Inr resp \<Rightarrow>
     (if \<not> (200 \<le> resp_status resp \<and> resp_status resp \<le> 299) then
        (case resp_text resp of
           Inl m \<Rightarrow> Inl m
         | Inr errorText \<Rightarrow>
             if resp_status resp = 429 then
               Inr \<lparr>status_code = 429, body = error_body ''Rate limit exceeded. Please try again later.''\<rparr>
             else if resp_status resp = 402 then
               Inr \<lparr>status_code = 402,
                    body = error_body ''AI service requires payment. Please contact administrator.''\<rparr>
             else Inl (''AI Gateway error: '' @ show_nat (resp_status resp)))
      else
     (case resp_json resp of
        Inl m \<Rightarrow> Inl m
      | Inr data \<Rightarrow>
     (if data = JNull then Inl TypeError_message
      else
        (let toolCall = first_tool_call data in
         if falsy toolCall then Inl ''No valid response from AI''
         else
           (let arguments = opt_chain (get_prop ''arguments'') (get_prop ''function'' (the toolCall)) in
            if falsy arguments then Inl ''No valid response from AI''
            else
              (case JSON_parse (the arguments) of
                 Inl m \<Rightarrow> Inl m
               | Inr analysis \<Rightarrow> Inr \<lparr>status_code = 200, body = Some analysis\<rparr>)))))))))"

text \<open>
  The handler given to \<^verbatim>\<open>serve\<close>: the answer to a preflight request, else the
  \<^verbatim>\<open>try\<close> block with its \<^verbatim>\<open>catch\<close>.
\<close>

definition serve_handler :: "(json \<Rightarrow> string + json) \<Rightarrow> request_env \<Rightarrow> response" where
  "serve_handler JSON_parse env =
     (if req_method env = ''OPTIONS'' then \<lparr>status_code = 200, body = None\<rparr>
      else
        (case analyze JSON_parse env of
           Inl m \<Rightarrow> \<lparr>status_code = 500, body = error_body m\<rparr>
         | Inr r \<Rightarrow> r))"

text \<open>
  The structured result: an object with the four properties \<^verbatim>\<open>suggestedCategory\<close>,
  \<^verbatim>\<open>priority\<close>, \<^verbatim>\<open>priorityScore\<close> and \<^verbatim>\<open>suggestedResponse\<close>. The error object: an
  object with a string property \<^verbatim>\<open>error\<close>.
\<close>

definition is_structured_result :: "json option \<Rightarrow> bool" where
  "is_structured_result b =
     (case b of
        Some (JObj kvs) \<Rightarrow>
          list_all (\<lambda>k. map_of kvs k \<noteq> None)
            [''suggestedCategory'', ''priority'', ''priorityScore'', ''suggestedResponse'']
      | _ \<Rightarrow> False)"

definition is_error_object :: "json option \<Rightarrow> bool" where
  "is_error_object b =
     (case b of
        Some (JObj kvs) \<Rightarrow> (case map_of kvs ''error'' of Some (JStr m) \<Rightarrow> True | _ \<Rightarrow> False)
      | _ \<Rightarrow> False)"

text \<open>
  The status of the gateway's response, when the function gets as far as reading it: the
  request body was read and is not null, the credential is configured and the fetch
  resolved.
\<close>

definition gateway_status :: "request_env \<Rightarrow> nat option" where
  "gateway_status env =
     (case req_json env of
        Inl m \<Rightarrow> None
      | Inr request_body \<Rightarrow>
          if request_body = JNull \<or> LOVABLE_API_KEY env = None \<or> LOVABLE_API_KEY env = Some [] then None
          else (case fetch_result env of Inl m \<Rightarrow> None | Inr resp \<Rightarrow> Some (resp_status resp)))"

text \<open>
  A gateway response of the given status whose first tool call carries the given
  arguments, a request that reaches it, and a \<^verbatim>\<open>JSON.parse\<close> that is only asked about
  the text \<^verbatim>\<open>{}\<close>, the empty object.
\<close>

definition example_gateway_response :: "nat \<Rightarrow> string \<Rightarrow> gateway_response" where
  "example_gateway_response s args =
     \<lparr>resp_status = s, resp_text = Inr [],
      resp_json = Inr (JObj [(''choices'', JArr [JObj [(''message'', JObj [(''tool_calls'',
        JArr [JObj [(''function'',
          JObj [(''name'', JStr ''analyze_complaint''), (''arguments'', JStr args)])]])])]])])\<rparr>"

definition example_request :: "string \<Rightarrow> nat \<Rightarrow> string \<Rightarrow> request_env" where
  "example_request method s args =
     \<lparr>req_method = method,
      req_json = Inr (JObj [(''title'', JStr ''Broken projector in Lab 3''),
        (''description'', JStr ''Projector shows no image.''), (''category'', JStr ''Facilities'')]),
      LOVABLE_API_KEY = Some ''key'',
      fetch_result = Inr (example_gateway_response s args)\<rparr>"

definition example_JSON_parse :: "json \<Rightarrow> string + json" where
  "example_JSON_parse v = (if v = JStr ''{}'' then Inr (JObj []) else Inl ''Unexpected token'')"

section \<open>Example data\<close>

definition example_now :: timestamptz where
  "example_now = \<lparr>ts_year = 2025, ts_within_year = 0\<rparr>"

text \<open>Users 1 and 3 are students, user 2 is an administrator.\<close>

definition example_db :: db where
  "example_db =
     \<lparr>auth_users = [1, 2, 3],
      user_roles = [(1, student), (2, student), (2, admin), (3, student)],
      complaints = []\<rparr>"

definition example_form :: complaint_form where
  "example_form =
     \<lparr>form_title = ''Broken projector in Lab 3'',
      form_description = ''Projector shows no image.'',
      form_category = ''Facilities''\<rparr>"

definition example_data :: function_data where
  "example_data =
     \<lparr>fd_suggestedCategory = Some ''Facilities'', fd_priority = Some ''Medium'',
      fd_priorityScore = Some (7 / 10), fd_suggestedResponse = Some ''...''\<rparr>"

definition example_invoke :: invoke_result where
  "example_invoke = \<lparr>functionData = Some example_data, functionError = None\<rparr>"

definition example_failed_invoke :: invoke_result where
  "example_failed_invoke =
     \<lparr>functionData = None, functionError = Some ''Edge Function returned a non-2xx status code''\<rparr>"

text \<open>The complaint the example submission stores, and the table that holds it.\<close>

definition example_complaint :: complaint where
  "example_complaint =
     \<lparr>id_col = 10, complaint_id = ''CMP-2025-001'', student_id = 1,
      title = ''Broken projector in Lab 3'', description = ''Projector shows no image.'',
      category = Some ''Facilities'', ai_suggested_category = Some ''Facilities'',
      priority = Some Medium, ai_priority_score = Some (7 / 10), status = Pending,
      admin_response = None, ai_suggested_response = Some ''...'',
      created_at = example_now, updated_at = example_now\<rparr>"

definition example_db_1 :: db where
  "example_db_1 = example_db\<lparr>complaints := [example_complaint]\<rparr>"

text \<open>
  A table that holds 999 complaints of the year 2025, with the ticket codes
  \<^verbatim>\<open>CMP-2025-001\<close> to \<^verbatim>\<open>CMP-2025-999\<close>.
\<close>

definition example_full_year :: "complaint list" where
  "example_full_year =
     map (\<lambda>n. example_complaint\<lparr>id_col := n, complaint_id := ticket_code 2025 n\<rparr>) [1..<1000]"

text \<open>The table after a second submission by the same student in the same year.\<close>

definition example_db_2 :: db where
  "example_db_2 =
     example_db\<lparr>complaints :=
       [example_complaint, example_complaint\<lparr>id_col := 11, complaint_id := ''CMP-2025-002''\<rparr>]\<rparr>"

text \<open>
  The ticket codes of the rows created in each year are, in the order of creation, the
  codes with the sequence numbers 1, 2, 3 and so on, and there are at most 999 of them.
\<close>

abbreviation sequential_codes :: "complaint list \<Rightarrow> bool" where
  "sequential_codes rows \<equiv>
     \<forall>y. length (rows_of_year y rows) \<le> 999 \<and>
         map complaint_id (rows_of_year y rows)
           = map (ticket_code y) [1..<Suc (length (rows_of_year y rows))]"

section \<open>Facts about the sequencing of steps\<close>

lemma and_then_Inr [simp]: "(and_then m f = Inr y) = (\<exists>x. m = Inr x \<and> f x = Inr y)"
  by (cases m) (simp_all add: and_then_def)

lemma require_Inr [simp]: "(require ok e = Inr u) = ok"
  by (simp add: require_def)

lemma new_complaint_fields:
  assumes "new_complaint uid now fresh visible p = Inr r"
  shows "set_complaint_id now visible (ins_complaint_id p) = Inr (complaint_id r)"
    and "priority_value (ins_priority p) = Inr (priority r)"
    and "score_value (ins_ai_priority_score p) = Inr (ai_priority_score r)"
    and "status_value (ins_status p) = Inr (status r)"
    and "ai_suggested_category r = ins_ai_suggested_category p"
    and "ai_suggested_response r = ins_ai_suggested_response p"
    and "created_at r = (case ins_created_at p of None \<Rightarrow> now | Some t \<Rightarrow> t)"
    and "insert_check uid (ins_student_id p)"
  using assms by (auto simp: new_complaint_def)

lemma insert_complaint_Inr:
  "(insert_complaint uid now fresh visible p d = Inr d') =
   (\<exists>r. new_complaint uid now fresh visible p = Inr r \<and> id_col r \<notin> set (map id_col (complaints d))
      \<and> complaint_id r \<notin> set (map complaint_id (complaints d)) \<and> student_id r \<in> set (auth_users d)
      \<and> d' = d\<lparr>complaints := complaints d @ [r]\<rparr>)"
  by (auto simp: insert_complaint_def)

lemma handleSubmit_succeeded:
  "(handleSubmit user now fresh visible f ir d = (d', submit_succeeded)) =
   (\<exists>v fd. complaintSchema_safeParse f = Inr v \<and> functionError ir = None \<and> functionData ir = Some fd
      \<and> insert_complaint user now fresh visible (submitted_row user v fd) d = Inr d')"
  by (auto simp: handleSubmit_def split: sum.splits option.splits)

lemma handleSubmit_unchanged:
  "handleSubmit user now fresh visible f ir d = (d', res) \<Longrightarrow> res \<noteq> submit_succeeded \<Longrightarrow> d' = d"
  by (auto simp: handleSubmit_def split: sum.splits option.splits)

lemma generate_complaint_id_nonempty: "generate_complaint_id now rows = Inr c \<Longrightarrow> c \<noteq> []"
  by (auto simp: generate_complaint_id_def Let_def split: if_splits)

lemma example_submission:
  "handleSubmit (Some 1) example_now 10 [] example_form example_invoke example_db
     = (example_db_1, submit_succeeded)"
  by code_simp

section \<open>Classification failure and persistence\<close>

text \<open>
  C3: when the classification call returns an error (\<open>functionError\<close> is not null),
  handleSubmit inserts nothing: the database is left as it was and the submission does
  not succeed.
\<close>

theorem classification_error_blocks_insert:
  "functionError ir \<noteq> None \<Longrightarrow>
     fst (handleSubmit user now fresh visible f ir d) = d \<and>
     snd (handleSubmit user now fresh visible f ir d) \<noteq> submit_succeeded"
  by (auto simp add: handleSubmit_def split: sum.splits option.splits)

theorem classification_error_blocks_insert_witness:
  "functionError example_failed_invoke \<noteq> None \<and>
   fst (handleSubmit (Some 1) example_now 10 [] example_form example_failed_invoke example_db) = example_db \<and>
   snd (handleSubmit (Some 1) example_now 10 [] example_form example_failed_invoke example_db)
     \<noteq> submit_succeeded"
proof -
  have h: "functionError example_failed_invoke \<noteq> None"
    by (simp add: example_failed_invoke_def)
  from classification_error_blocks_insert [OF h] h show ?thesis by blast
qed

section \<open>The frame of an admin update\<close>

lemma update_rows_frame:
  assumes "update_rows d uid now target u rs = Inr rs'"
    and "upd_complaint_id u = None" "upd_student_id u = None" "upd_title u = None"
    and "upd_description u = None"
  shows "map (\<lambda>r. (id_col r, student_id r, title r, description r, complaint_id r)) rs' =
         map (\<lambda>r. (id_col r, student_id r, title r, description r, complaint_id r)) rs"
  using assms
proof (induction rs arbitrary: rs')
  case Nil
  then show ?case by simp
next
  case (Cons r rs)
  then show ?case
    by (auto split: sum.splits if_splits row_update.splits
        simp: update_row_def Let_def set_columns_def update_updated_at_column_def)
qed

text \<open>
  C5: updateComplaint, by whatever caller and with whatever outcome, leaves the columns
  \<open>student_id\<close>, \<open>title\<close>, \<open>description\<close> and \<open>complaint_id\<close> (and the key \<open>id\<close>) of
  every row of the table as they were.
\<close>

theorem updateComplaint_frame:
  "map (\<lambda>r. (id_col r, student_id r, title r, description r, complaint_id r))
     (complaints (fst (updateComplaint uid now target new_status response d))) =
   map (\<lambda>r. (id_col r, student_id r, title r, description r, complaint_id r)) (complaints d)"
proof (cases "update_rows d uid now target
    (no_change\<lparr>upd_status := Some new_status, upd_admin_response := Some response\<rparr>) (complaints d)")
  case (Inl e)
  then show ?thesis by (simp add: updateComplaint_def update_complaints_def)
next
  case (Inr rs)
  from update_rows_frame [OF Inr]
  have "map (\<lambda>r. (id_col r, student_id r, title r, description r, complaint_id r)) rs =
        map (\<lambda>r. (id_col r, student_id r, title r, description r, complaint_id r)) (complaints d)"
    by (simp add: no_change_def)
  with Inr show ?thesis by (simp add: updateComplaint_def update_complaints_def)
qed

theorem updateComplaint_frame_witness:
  "snd (updateComplaint (Some 2) example_now 10 Resolved ''Fixed'' example_db_1) = toast_success \<and>
   map status (complaints (fst (updateComplaint (Some 2) example_now 10 Resolved ''Fixed'' example_db_1)))
     = [Resolved] \<and>
   map (\<lambda>r. (id_col r, student_id r, title r, description r, complaint_id r))
     (complaints (fst (updateComplaint (Some 2) example_now 10 Resolved ''Fixed'' example_db_1))) =
   [(10, 1, ''Broken projector in Lab 3'', ''Projector shows no image.'', ''CMP-2025-001'')]"
proof -
  have a: "snd (updateComplaint (Some 2) example_now 10 Resolved ''Fixed'' example_db_1) = toast_success"
    by code_simp
  have b: "map status (complaints (fst (updateComplaint (Some 2) example_now 10 Resolved ''Fixed'' example_db_1)))
     = [Resolved]"
    by code_simp
  have c: "map (\<lambda>r. (id_col r, student_id r, title r, description r, complaint_id r)) (complaints example_db_1)
     = [(10, 1, ''Broken projector in Lab 3'', ''Projector shows no image.'', ''CMP-2025-001'')]"
    by (simp add: example_db_1_def example_complaint_def)
  from a b c updateComplaint_frame [of "Some 2" example_now 10 Resolved "''Fixed''" example_db_1]
  show ?thesis by simp
qed

section \<open>Ticket codes of submitted complaints\<close>

text \<open>
  C10: the object handleSubmit inserts carries the empty string as \<open>complaint_id\<close>;
  the trigger generates a code both for NULL and for the empty string; so whenever a
  submission stores a row, the row's ticket code is the one
  \<open>generate_complaint_id\<close> computes from the clock and the rows it sees (nothing the
  form or the classification supplied enters it), and it is not empty.
\<close>

theorem submitted_ticket_code_is_generated:
  "ins_complaint_id (submitted_row user v fd) = Some [] \<and>
   set_complaint_id now rows None = generate_complaint_id now rows \<and>
   set_complaint_id now rows (Some []) = generate_complaint_id now rows \<and>
   (handleSubmit user now fresh visible f ir d = (d', submit_succeeded) \<longrightarrow>
     (\<exists>r. complaints d' = complaints d @ [r] \<and>
        generate_complaint_id now visible = Inr (complaint_id r) \<and> complaint_id r \<noteq> []))"
proof (intro conjI impI)
  assume "handleSubmit user now fresh visible f ir d = (d', submit_succeeded)"
  then obtain v' fd' r
    where r: "new_complaint user now fresh visible (submitted_row user v' fd') = Inr r"
      and d': "d' = d\<lparr>complaints := complaints d @ [r]\<rparr>"
    by (auto simp: handleSubmit_succeeded insert_complaint_Inr)
  from new_complaint_fields(1) [OF r]
  have g: "generate_complaint_id now visible = Inr (complaint_id r)"
    by (simp add: submitted_row_def set_complaint_id_def)
  with d' generate_complaint_id_nonempty [OF g]
  show "\<exists>r. complaints d' = complaints d @ [r] \<and>
          generate_complaint_id now visible = Inr (complaint_id r) \<and> complaint_id r \<noteq> []"
    by auto
qed (simp_all add: submitted_row_def set_complaint_id_def)

theorem submitted_ticket_code_is_generated_witness:
  "handleSubmit (Some 1) example_now 10 [] example_form example_invoke example_db
     = (example_db_1, submit_succeeded) \<and>
   (\<exists>r. complaints example_db_1 = complaints example_db @ [r] \<and>
      generate_complaint_id example_now [] = Inr (complaint_id r) \<and> complaint_id r \<noteq> [])"
  using submitted_ticket_code_is_generated
    [of "Some 1" example_form example_data example_now "[]" 10 "[]" example_form example_invoke
      example_db example_db_1]
    example_submission
  by simp

section \<open>The submission validator\<close>

text \<open>
  C6, as the code has it: the lengths that are checked are those of the title and the
  description after \<^verbatim>\<open>.trim()\<close> has removed the white space at both ends. A trimmed
  title shorter than 5 characters gets the title's message "Title must be at least 5
  characters", one longer than 200 gets "Title too long", and one in [5,200] gets no
  title message; a trimmed description shorter than 20 characters gets "Description must
  be at least 20 characters", one longer than 2000 gets "Description too long", and one
  in [20,2000] gets no description message.
\<close>

theorem validator_length_bounds:
  "field_error f ''title'' =
     (if length (js_trim (form_title f)) < 5 then Some ''Title must be at least 5 characters''
      else if 200 < length (js_trim (form_title f)) then Some ''Title too long''
      else None) \<and>
   field_error f ''description'' =
     (if length (js_trim (form_description f)) < 20
        then Some ''Description must be at least 20 characters''
      else if 2000 < length (js_trim (form_description f)) then Some ''Description too long''
      else None)"
  by (simp add: field_error_def complaintSchema_safeParse_def title_schema_def
      description_schema_def category_schema_def newErrors_def)

theorem validator_length_bounds_witness:
  "length (js_trim (form_title example_form)) = 25 \<and>
   length (js_trim (form_description example_form)) = 25 \<and>
   field_error example_form ''title'' = None \<and> field_error example_form ''description'' = None"
proof -
  have "length (js_trim (form_title example_form)) = 25"
    and "length (js_trim (form_description example_form)) = 25"
    by code_simp+
  with validator_length_bounds [of example_form] show ?thesis by simp
qed

text \<open>
  The claim as stated counts the characters of the input: a title of five spaces has a
  length in [5,200] and is rejected, and a title of 201 characters, the last a space, is
  accepted.
\<close>

theorem validator_length_bounds_counterexample:
  "length (form_title (example_form\<lparr>form_title := ''     ''\<rparr>)) = 5 \<and>
   field_error (example_form\<lparr>form_title := ''     ''\<rparr>) ''title''
     = Some ''Title must be at least 5 characters'' \<and>
   length (form_title (example_form\<lparr>form_title := replicate 200 (CHR ''a'') @ '' ''\<rparr>)) = 201 \<and>
   field_error (example_form\<lparr>form_title := replicate 200 (CHR ''a'') @ '' ''\<rparr>) ''title'' = None"
  by code_simp

text \<open>
  C7, as the code has it: the validator's only check on the category is that it is not
  empty. The empty category gets the message "Please select a category"; every other
  string gets no category message, among them the six values the form's selector offers.
\<close>

theorem validator_category_nonempty:
  "field_error f ''category'' =
     (if form_category f = [] then Some ''Please select a category'' else None) \<and>
   list_all (\<lambda>c. c \<noteq> []) categories"
  by (simp add: field_error_def complaintSchema_safeParse_def title_schema_def
      description_schema_def category_schema_def newErrors_def categories_def)

theorem validator_category_nonempty_witness:
  "field_error (example_form\<lparr>form_category := []\<rparr>) ''category'' = Some ''Please select a category'' \<and>
   field_error example_form ''category'' = None"
  using validator_category_nonempty [of "example_form\<lparr>form_category := []\<rparr>"]
    validator_category_nonempty [of example_form]
  by (simp add: example_form_def)

text \<open>
  The claim as stated has the validator reject every string outside the six values:
  the category "Foo" is none of them and the form validates.
\<close>

theorem validator_category_counterexample:
  "''Foo'' \<notin> set categories \<and>
   complaintSchema_safeParse (example_form\<lparr>form_category := ''Foo''\<rparr>)
     = Inr (example_form\<lparr>form_category := ''Foo''\<rparr>)"
  by code_simp

section \<open>What a submission stores\<close>

lemma priority_value_Some:
  "priority_value (Some s) = Inr p \<Longrightarrow> map_option complaint_priority_out p = Some s"
  by (auto simp: priority_value_def complaint_priority_in_def complaint_priority_out_def
      split: if_splits)

lemma priority_value_None: "priority_value None = Inr p \<Longrightarrow> p = Some Medium"
  by (simp add: priority_value_def)

lemma score_value_Inr: "score_value v = Inr x \<Longrightarrow> x = map_option round_scale_2 v"
  by (cases v) (auto simp: score_value_def decimal_3_2_def Let_def split: if_splits)

lemma status_value_None: "status_value None = Inr s \<Longrightarrow> s = Pending"
  by (simp add: status_value_def)

lemma round_scale_2_exact: "round_scale_2 (of_int k / 100) = of_int k / 100"
proof -
  have x: "(of_int k / 100 :: rat) * 100 = of_int k" by simp
  have c: "- (of_int k / 100 :: rat) * 100 = of_int (- k)" by simp
  have a: "\<lfloor>(of_int k :: rat) + 1 / 2\<rfloor> = k" by linarith
  have b: "\<lfloor>(of_int (- k) :: rat) + 1 / 2\<rfloor> = - k" by linarith
  show ?thesis
    unfolding round_scale_2_def x c a b by simp
qed

text \<open>
  C9, as the code has it: when a submission stores a row, the row's
  \<open>ai_suggested_category\<close> and \<open>ai_suggested_response\<close> are the returned values, its
  \<open>priority\<close> is the returned priority (the column default Medium when none was
  returned), its \<open>status\<close> is Pending, and its \<open>ai_priority_score\<close> is the returned
  score rounded to two decimal places, as the column type \<^verbatim>\<open>DECIMAL(3,2)\<close> stores it:
  equal to the returned score whenever that has at most two decimal places.
\<close>

theorem submitted_row_carries_classification:
  "handleSubmit user now fresh visible f ir d = (d', submit_succeeded) \<Longrightarrow>
     \<exists>fd r. functionData ir = Some fd \<and> complaints d' = complaints d @ [r] \<and>
       ai_suggested_category r = fd_suggestedCategory fd \<and>
       ai_suggested_response r = fd_suggestedResponse fd \<and>
       (case fd_priority fd of
          None \<Rightarrow> priority r = Some Medium
        | Some s \<Rightarrow> map_option complaint_priority_out (priority r) = Some s) \<and>
       ai_priority_score r = map_option round_scale_2 (fd_priorityScore fd) \<and>
       (\<forall>k::int. fd_priorityScore fd = Some (of_int k / 100) \<longrightarrow>
          ai_priority_score r = fd_priorityScore fd) \<and>
       status r = Pending"
proof -
  assume "handleSubmit user now fresh visible f ir d = (d', submit_succeeded)"
  then obtain v fd r
    where fd: "functionData ir = Some fd"
      and r: "new_complaint user now fresh visible (submitted_row user v fd) = Inr r"
      and d': "d' = d\<lparr>complaints := complaints d @ [r]\<rparr>"
    by (auto simp: handleSubmit_succeeded insert_complaint_Inr)
  note n = new_complaint_fields [OF r]
  have cat: "ai_suggested_category r = fd_suggestedCategory fd"
    using n(5) by (simp add: submitted_row_def)
  have resp: "ai_suggested_response r = fd_suggestedResponse fd"
    using n(6) by (simp add: submitted_row_def)
  have prio: "case fd_priority fd of
          None \<Rightarrow> priority r = Some Medium
        | Some s \<Rightarrow> map_option complaint_priority_out (priority r) = Some s"
    using n(2)
    by (auto simp: submitted_row_def split: option.splits
        dest: priority_value_None priority_value_Some)
  have score: "ai_priority_score r = map_option round_scale_2 (fd_priorityScore fd)"
    using n(3) by (auto simp: submitted_row_def dest: score_value_Inr)
  have exact: "\<forall>k::int. fd_priorityScore fd = Some (of_int k / 100) \<longrightarrow>
          ai_priority_score r = fd_priorityScore fd"
    using score by (auto simp: round_scale_2_exact)
  have stat: "status r = Pending"
    using n(4) by (auto simp: submitted_row_def dest: status_value_None)
  from d' have rows: "complaints d' = complaints d @ [r]" by simp
  from fd rows cat resp prio score exact stat show ?thesis by blast
qed

theorem submitted_row_carries_classification_witness:
  "\<exists>r. complaints example_db_1 = complaints example_db @ [r] \<and>
       ai_suggested_category r = Some ''Facilities'' \<and>
       ai_suggested_response r = Some ''...'' \<and>
       map_option complaint_priority_out (priority r) = Some ''Medium'' \<and>
       ai_priority_score r = Some (7 / 10) \<and>
       status r = Pending"
proof -
  have s: "(7 / 10 :: rat) = of_int 70 / 100" by simp
  from submitted_row_carries_classification [OF example_submission]
  obtain fd r where "functionData example_invoke = Some fd"
    and "complaints example_db_1 = complaints example_db @ [r]"
    and "ai_suggested_category r = fd_suggestedCategory fd"
    and "ai_suggested_response r = fd_suggestedResponse fd"
    and "case fd_priority fd of
          None \<Rightarrow> priority r = Some Medium
        | Some s \<Rightarrow> map_option complaint_priority_out (priority r) = Some s"
    and "\<forall>k::int. fd_priorityScore fd = Some (of_int k / 100) \<longrightarrow>
          ai_priority_score r = fd_priorityScore fd"
    and "status r = Pending"
    by blast
  moreover from this(1) have "fd = example_data" by (simp add: example_invoke_def)
  ultimately show ?thesis
    using s by (auto simp: example_data_def simp del: of_int_numeral)
qed

text \<open>
  The claim as stated has the stored score equal to the returned one: a returned score
  of 0.875 is stored as 0.88.
\<close>

theorem submitted_row_carries_classification_counterexample:
  "handleSubmit (Some 1) example_now 10 [] example_form
     (example_invoke\<lparr>functionData := Some (example_data\<lparr>fd_priorityScore := Some (7 / 8)\<rparr>)\<rparr>) example_db
     = (example_db\<lparr>complaints := [example_complaint\<lparr>ai_priority_score := Some (22 / 25)\<rparr>]\<rparr>,
        submit_succeeded) \<and>
   (22 / 25 :: rat) \<noteq> 7 / 8"
  by code_simp

section \<open>Facts about the text functions\<close>

lemma digit_chars_are_digits: "list_all (\<lambda>d. is_digit (digit_char d)) [0..<10]"
  by code_simp

lemma is_digit_digit_char: "d < 10 \<Longrightarrow> is_digit (digit_char d)"
  using digit_chars_are_digits by (simp add: list_all_iff)

lemma show_nat_digits: "list_all is_digit (show_nat n)"
proof (induction n rule: show_nat.induct)
  case (1 n)
  show ?case
  proof (cases "n < 10")
    case True
    then show ?thesis by (subst show_nat.simps) (simp add: is_digit_digit_char)
  next
    case False
    with 1 show ?thesis by (subst show_nat.simps) (simp add: is_digit_digit_char)
  qed
qed

lemma replicate_zero_digits: "list_all is_digit (replicate k (CHR ''0''))"
  by (induction k) (simp_all add: is_digit_def)

lemma year_text_digits: "list_all is_digit (year_text y)"
  by (simp add: year_text_def Let_def show_nat_digits replicate_zero_digits)

lemma sql_like_percent: "sql_like ''%'' s"
  by (induction s) simp_all

lemma sql_like_literal_prefix:
  "CHR ''%'' \<notin> set lit \<Longrightarrow> CHR ''_'' \<notin> set lit \<Longrightarrow> sql_like (lit @ ''%'') s = prefix lit s"
proof (induction lit arbitrary: s)
  case Nil
  then show ?case by (simp add: sql_like_percent)
next
  case (Cons p lit)
  then have p: "p \<noteq> CHR ''%''" "p \<noteq> CHR ''_''"
    and ih: "\<And>s. sql_like (lit @ ''%'') s = prefix lit s"
    by auto
  show ?case
  proof (cases s)
    case Nil
    with p show ?thesis by simp
  next
    case (Cons c cs)
    with p ih show ?thesis by auto
  qed
qed

lemma digit_not_special:
  "is_digit x \<Longrightarrow> x \<noteq> CHR ''%'' \<and> x \<noteq> CHR ''_'' \<and> x \<noteq> CHR ''-''"
  by (auto simp: is_digit_def)

lemma digits_no_wildcard:
  "list_all is_digit s \<Longrightarrow> CHR ''%'' \<notin> set s \<and> CHR ''_'' \<notin> set s \<and> CHR ''-'' \<notin> set s"
  by (induction s) (auto dest: digit_not_special)

lemma sql_like_year_pattern:
  "sql_like (year_pattern (year_text y)) c = prefix (year_prefix y) c"
proof -
  have eq: "year_pattern (year_text y) = year_prefix y @ ''%''"
    by (simp add: year_pattern_def year_prefix_def)
  have a: "CHR ''%'' \<notin> set (year_prefix y)"
    using digits_no_wildcard [OF year_text_digits [of y]] by (simp add: year_prefix_def)
  have b: "CHR ''_'' \<notin> set (year_prefix y)"
    using digits_no_wildcard [OF year_text_digits [of y]] by (simp add: year_prefix_def)
  show ?thesis
    unfolding eq by (rule sql_like_literal_prefix [OF a b])
qed

lemma digit_values: "list_all (\<lambda>d. digit_value (digit_char d) = d) [0..<10]"
  by code_simp

lemma digit_value_digit_char: "d < 10 \<Longrightarrow> digit_value (digit_char d) = d"
  using digit_values by (simp add: list_all_iff)

lemma digits_value_snoc: "digits_value (s @ [c]) = 10 * digits_value s + digit_value c"
  by (simp add: digits_value_def)

lemma digits_value_show_nat: "digits_value (show_nat n) = n"
proof (induction n rule: show_nat.induct)
  case (1 n)
  show ?case
  proof (cases "n < 10")
    case True
    then show ?thesis
      by (subst show_nat.simps) (simp add: digits_value_def digit_value_digit_char)
  next
    case False
    with 1 have "digits_value (show_nat (n div 10)) = n div 10" by simp
    with False show ?thesis
      by (subst show_nat.simps) (simp add: digits_value_snoc digit_value_digit_char)
  qed
qed

lemma digits_value_zeros: "digits_value (replicate k (CHR ''0'') @ s) = digits_value s"
proof -
  have "foldl (\<lambda>a c. 10 * a + digit_value c) 0 (replicate k (CHR ''0'')) = 0"
    by (induction k) (simp_all add: digit_value_def)
  then show ?thesis by (simp add: digits_value_def)
qed

lemma digits_value_year_text: "digits_value (year_text y) = y"
  by (simp add: year_text_def Let_def digits_value_zeros digits_value_show_nat)

lemma year_text_inj: "year_text y = year_text y' \<Longrightarrow> y = y'"
  using digits_value_year_text by metis

lemma digits_hyphen_prefix:
  "list_all is_digit xs \<Longrightarrow> list_all is_digit ys \<Longrightarrow> prefix (xs @ ''-'') (ys @ ''-'' @ zs) \<Longrightarrow>
     xs = ys"
proof (induction xs arbitrary: ys)
  case Nil
  then show ?case by (cases ys) (auto dest: digit_not_special)
next
  case (Cons x xs)
  then show ?case by (cases ys) (auto dest: digit_not_special)
qed

lemma prefix_ticket_code: "prefix (year_prefix y) (ticket_code y' n) = (y = y')"
proof
  assume "prefix (year_prefix y) (ticket_code y' n)"
  then have "prefix (year_text y @ ''-'') (year_text y' @ ''-'' @ lpad (show_nat n) 3 ''0'')"
    by (simp add: ticket_code_def year_prefix_def)
  from digits_hyphen_prefix [OF year_text_digits year_text_digits this]
  show "y = y'" by (rule year_text_inj)
next
  assume "y = y'"
  then show "prefix (year_prefix y) (ticket_code y' n)"
    by (simp add: ticket_code_def year_prefix_def)
qed

lemma generate_complaint_id_eq:
  "generate_complaint_id now rows =
     (if 2147483647 < int (length (filter (\<lambda>r. prefix (year_prefix (ts_year now)) (complaint_id r)) rows)) + 1
      then Inl integer_out_of_range
      else Inr (ticket_code (ts_year now)
        (Suc (length (filter (\<lambda>r. prefix (year_prefix (ts_year now)) (complaint_id r)) rows)))))"
proof -
  have "nat (int k + 1) = Suc k" for k by simp
  then show ?thesis
    by (simp add: generate_complaint_id_def Let_def to_char_YYYY_def sql_like_year_pattern
        ticket_code_def)
qed

lemma concat_replicate_zero: "concat (replicate k ''0'') = replicate k (CHR ''0'')"
  by (induction k) simp_all

lemma list_all_take: "list_all P s \<Longrightarrow> list_all P (take n s)"
  by (auto simp: list_all_iff dest: in_set_takeD)

lemma lpad_3_digits:
  assumes "list_all is_digit s"
  shows "length (lpad s 3 ''0'') = 3 \<and> list_all is_digit (lpad s 3 ''0'')"
proof (cases "3 \<le> length s")
  case True
  then have "lpad s 3 ''0'' = take 3 s" by (simp add: lpad_def)
  with True assms show ?thesis by (simp add: list_all_take)
next
  case False
  then have "lpad s 3 ''0'' = replicate (3 - length s) (CHR ''0'') @ s"
    by (simp add: lpad_def concat_replicate_zero)
  with False assms show ?thesis by (simp add: replicate_zero_digits)
qed

lemma show_nat_nonempty: "show_nat n \<noteq> []"
  by (subst show_nat.simps) simp

lemma is_ticket_code_ticket_code: "is_ticket_code y (ticket_code y n)"
  using lpad_3_digits [OF show_nat_digits, of n]
  by (simp add: is_ticket_code_def ticket_code_def Let_def)

lemma lpad_short: "length s \<le> 3 \<Longrightarrow> lpad s 3 ''0'' = zero_pad_3 s"
  by (auto simp: lpad_def zero_pad_3_def concat_replicate_zero)

lemma length_show_nat: "n < 1000 \<Longrightarrow> length (show_nat n) \<le> 3"
  by (subst show_nat.simps, subst show_nat.simps, subst show_nat.simps) simp

text \<open>
  Below a thousand the code does what the specification says: the sequence number is the
  count of the rows of the year plus one, zero-padded to three digits.
\<close>

lemma generate_complaint_id_below_1000:
  assumes "length (filter (\<lambda>r. prefix (''CMP-'' @ to_char_YYYY now @ ''-'') (complaint_id r)) rows) < 999"
  shows "generate_complaint_id now rows =
    Inr (''CMP-'' @ to_char_YYYY now @ ''-'' @ zero_pad_3 (show_nat
      (length (filter (\<lambda>r. prefix (''CMP-'' @ to_char_YYYY now @ ''-'') (complaint_id r)) rows) + 1)))"
proof -
  have p: "''CMP-'' @ to_char_YYYY now @ ''-'' = year_prefix (ts_year now)"
    by (simp add: year_prefix_def to_char_YYYY_def)
  have q: "''CMP-'' @ to_char_YYYY now @ ''-'' @ s = year_prefix (ts_year now) @ s" for s
    by (simp add: year_prefix_def to_char_YYYY_def)
  from assms show ?thesis
    unfolding p q
    by (simp add: generate_complaint_id_eq ticket_code_def lpad_short length_show_nat
        year_prefix_def)
qed

section \<open>The sequence number after 999 complaints\<close>

lemma example_full_year_counted:
  "filter (\<lambda>r. prefix (year_prefix 2025) (complaint_id r)) example_full_year = example_full_year"
  by (simp add: example_full_year_def filter_map o_def prefix_ticket_code)

lemma ticket_code_1000: "ticket_code 2025 1000 = ''CMP-2025-100''"
  by code_simp

lemma ticket_code_100: "ticket_code 2025 100 = ''CMP-2025-100''"
  by code_simp

lemma example_full_year_has_100: "''CMP-2025-100'' \<in> set (map complaint_id example_full_year)"
proof -
  have c: "map complaint_id example_full_year = map (ticket_code 2025) [1..<1000]"
    by (simp add: example_full_year_def o_def)
  have "ticket_code 2025 100 \<in> ticket_code 2025 ` set [1..<1000]"
    by (rule imageI) simp
  then have "''CMP-2025-100'' \<in> ticket_code 2025 ` set [1..<1000]"
    by (simp only: ticket_code_100)
  then show ?thesis by (simp only: c set_map)
qed

text \<open>
  C1 at a table that holds 999 complaints of the current year: the count plus one is
  1000, whose zero-padded form is \<^verbatim>\<open>1000\<close>, so the claim's code is
  \<^verbatim>\<open>CMP-2025-1000\<close>. \<^verbatim>\<open>LPAD(.., 3, '0')\<close> cuts the number to its first three digits:
  the code assigned is \<^verbatim>\<open>CMP-2025-100\<close>, which the table already holds, and the
  submission fails on the unique constraint.
\<close>

theorem generate_complaint_id_after_999:
  "length (filter (\<lambda>r. sql_like (year_pattern (to_char_YYYY example_now)) (complaint_id r))
     example_full_year) = 999 \<and>
   ''CMP-'' @ to_char_YYYY example_now @ ''-'' @ zero_pad_3 (show_nat (999 + 1)) = ''CMP-2025-1000'' \<and>
   generate_complaint_id example_now example_full_year = Inr ''CMP-2025-100'' \<and>
   set_complaint_id example_now example_full_year (Some []) = Inr ''CMP-2025-100'' \<and>
   ''CMP-2025-100'' \<in> set (map complaint_id example_full_year) \<and>
   handleSubmit (Some 1) example_now 0 example_full_year example_form example_invoke
     (example_db\<lparr>complaints := example_full_year\<rparr>)
     = (example_db\<lparr>complaints := example_full_year\<rparr>, submit_failed)"
proof -
  have y: "ts_year example_now = 2025" by (simp add: example_now_def)
  have len: "length example_full_year = 999" by (simp add: example_full_year_def)
  have count: "length (filter (\<lambda>r. sql_like (year_pattern (to_char_YYYY example_now)) (complaint_id r))
     example_full_year) = 999"
    by (simp add: to_char_YYYY_def y sql_like_year_pattern example_full_year_counted len)
  have padded: "''CMP-'' @ to_char_YYYY example_now @ ''-'' @ zero_pad_3 (show_nat (999 + 1)) = ''CMP-2025-1000''"
    by code_simp
  have gen: "generate_complaint_id example_now example_full_year = Inr ''CMP-2025-100''"
    by (simp add: generate_complaint_id_eq y example_full_year_counted len ticket_code_1000)
  then have trig: "set_complaint_id example_now example_full_year (Some []) = Inr ''CMP-2025-100''"
    by (simp add: set_complaint_id_def)
  have parse: "complaintSchema_safeParse example_form = Inr example_form"
    by code_simp
  have no_insert: "insert_complaint (Some 1) example_now 0 example_full_year
      (submitted_row (Some 1) example_form example_data)
      (example_db\<lparr>complaints := example_full_year\<rparr>) \<noteq> Inr d'" for d'
  proof
    assume "insert_complaint (Some 1) example_now 0 example_full_year
      (submitted_row (Some 1) example_form example_data)
      (example_db\<lparr>complaints := example_full_year\<rparr>) = Inr d'"
    then obtain r
      where r: "new_complaint (Some 1) example_now 0 example_full_year
          (submitted_row (Some 1) example_form example_data) = Inr r"
        and fresh: "complaint_id r \<notin> set (map complaint_id example_full_year)"
      by (auto simp: insert_complaint_Inr)
    from new_complaint_fields(1) [OF r] trig have "complaint_id r = ''CMP-2025-100''"
      by (simp add: submitted_row_def)
    with fresh example_full_year_has_100 show False by simp
  qed
  have submit: "handleSubmit (Some 1) example_now 0 example_full_year example_form example_invoke
     (example_db\<lparr>complaints := example_full_year\<rparr>)
     = (example_db\<lparr>complaints := example_full_year\<rparr>, submit_failed)"
    using no_insert
    by (simp add: handleSubmit_def parse example_invoke_def split: sum.splits)
  from count padded gen trig example_full_year_has_100 submit show ?thesis by simp
qed


section \<open>Updates by the owning student\<close>

lemma set_columns_fields:
  assumes "set_columns u r = Inr new"
  shows "status new = (case upd_status u of None \<Rightarrow> status r | Some v \<Rightarrow> v)"
    and "student_id new = (case upd_student_id u of None \<Rightarrow> student_id r | Some v \<Rightarrow> v)"
    and "complaint_id new = (case upd_complaint_id u of None \<Rightarrow> complaint_id r | Some v \<Rightarrow> v)"
    and "title new = (case upd_title u of None \<Rightarrow> title r | Some v \<Rightarrow> v)"
    and "description new = (case upd_description u of None \<Rightarrow> description r | Some v \<Rightarrow> v)"
    and "id_col new = id_col r"
    and "created_at new = created_at r"
    and "ai_priority_score new =
      (case upd_ai_priority_score u of None \<Rightarrow> ai_priority_score r | Some x \<Rightarrow> Some (round_scale_2 x))"
proof -
  from assms obtain new_score
    where sc: "(case upd_ai_priority_score u of
                 None \<Rightarrow> Inr (ai_priority_score r)
               | Some x \<Rightarrow> score_value (Some x)) = Inr new_score"
      and score: "ai_priority_score new = new_score"
      and rest: "status new = (case upd_status u of None \<Rightarrow> status r | Some v \<Rightarrow> v)"
        "student_id new = (case upd_student_id u of None \<Rightarrow> student_id r | Some v \<Rightarrow> v)"
        "complaint_id new = (case upd_complaint_id u of None \<Rightarrow> complaint_id r | Some v \<Rightarrow> v)"
        "title new = (case upd_title u of None \<Rightarrow> title r | Some v \<Rightarrow> v)"
        "description new = (case upd_description u of None \<Rightarrow> description r | Some v \<Rightarrow> v)"
        "id_col new = id_col r" "created_at new = created_at r"
    unfolding set_columns_def and_then_Inr by fastforce
  from rest show "status new = (case upd_status u of None \<Rightarrow> status r | Some v \<Rightarrow> v)"
    and "student_id new = (case upd_student_id u of None \<Rightarrow> student_id r | Some v \<Rightarrow> v)"
    and "complaint_id new = (case upd_complaint_id u of None \<Rightarrow> complaint_id r | Some v \<Rightarrow> v)"
    and "title new = (case upd_title u of None \<Rightarrow> title r | Some v \<Rightarrow> v)"
    and "description new = (case upd_description u of None \<Rightarrow> description r | Some v \<Rightarrow> v)"
    and "id_col new = id_col r"
    and "created_at new = created_at r"
    by simp_all
  from sc score show "ai_priority_score new =
      (case upd_ai_priority_score u of None \<Rightarrow> ai_priority_score r | Some x \<Rightarrow> Some (round_scale_2 x))"
    by (cases "upd_ai_priority_score u") (auto dest: score_value_Inr)
qed

lemma set_columns_succeeds:
  "(\<exists>new. set_columns u r = Inr new) =
   (case upd_ai_priority_score u of None \<Rightarrow> True | Some x \<Rightarrow> \<bar>round_scale_2 x\<bar> < 10)"
proof -
  have "(\<exists>new. set_columns u r = Inr new) =
    (\<exists>x. (case upd_ai_priority_score u of
                 None \<Rightarrow> Inr (ai_priority_score r)
               | Some x \<Rightarrow> score_value (Some x)) = Inr x)"
    unfolding set_columns_def and_then_Inr by blast
  also have "\<dots> = (case upd_ai_priority_score u of None \<Rightarrow> True | Some x \<Rightarrow> \<bar>round_scale_2 x\<bar> < 10)"
    by (cases "upd_ai_priority_score u")
      (auto simp: score_value_def decimal_3_2_def Let_def)
  finally show ?thesis .
qed

lemma update_row_Inl: "set_columns u r = Inl e \<Longrightarrow> update_row d uid now u r = Inl e"
  by (simp add: update_row_def and_then_def)

lemma update_row_assigned:
  "set_columns u r = Inr assigned \<Longrightarrow>
   update_row d uid now u r =
     (if \<not> update_policy d uid r then Inr skipped
      else if \<not> update_policy d uid (update_updated_at_column now assigned)
        then Inl row_level_security_violation
      else if complaint_id assigned \<noteq> complaint_id r \<and>
              complaint_id assigned \<in> set (map complaint_id (complaints d))
        then Inl (unique_violation ''complaints_complaint_id_key'')
      else if student_id assigned \<noteq> student_id r \<and> student_id assigned \<notin> set (auth_users d)
        then Inl (foreign_key_violation ''complaints_student_id_fkey'')
      else Inr (updated (update_updated_at_column now assigned)))"
  by (simp add: update_row_def and_then_def Let_def update_updated_at_column_def)

text \<open>
  C4, as the code has it, for a caller who owns the row and does not hold the admin role.
  The row is open to an update by its owner exactly when its status is Pending. Once the
  status is anything else no update by the owner changes the row: an update whose values
  fit the columns skips the row, and none is applied. While the status is
  Pending, an update whose values fit the columns, that leaves the status Pending and the
  owner as they are and whose ticket code is the row's own or one that is not stored, is
  applied; an update that sets another status is refused with a row-level security
  error, because the policy has no \<^verbatim>\<open>WITH CHECK\<close> clause and its \<^verbatim>\<open>USING\<close> expression
  is then checked on the new row as well. The values fit the columns unless the score,
  rounded to two decimal places, has more than one digit before the decimal point; the
  score stored is the rounded one.
\<close>

theorem student_update_only_while_pending:
  "\<not> has_role d (Some u) admin \<and> student_id r = u \<longrightarrow>
     (update_policy d (Some u) r \<longleftrightarrow> status r = Pending) \<and>
     (status r \<noteq> Pending \<and> set_columns upd r = Inr assigned \<longrightarrow>
        update_row d (Some u) now upd r = Inr skipped) \<and>
     (status r \<noteq> Pending \<longrightarrow> (\<forall>new. update_row d (Some u) now upd r \<noteq> Inr (updated new))) \<and>
     (status r = Pending \<and> upd_status upd \<in> {None, Some Pending} \<and>
      upd_student_id upd \<in> {None, Some u} \<and> set_columns upd r = Inr assigned \<and>
      (complaint_id assigned = complaint_id r \<or>
       complaint_id assigned \<notin> set (map complaint_id (complaints d))) \<longrightarrow>
        update_row d (Some u) now upd r = Inr (updated (update_updated_at_column now assigned))) \<and>
     (status r = Pending \<and> upd_status upd = Some s \<and> s \<noteq> Pending \<and>
      set_columns upd r = Inr assigned \<longrightarrow>
        update_row d (Some u) now upd r = Inl row_level_security_violation) \<and>
     (status r = Pending \<and> set_columns upd r = Inl e \<longrightarrow>
        update_row d (Some u) now upd r = Inl e) \<and>
     ((\<exists>new. set_columns upd r = Inr new) \<longleftrightarrow>
        (case upd_ai_priority_score upd of None \<Rightarrow> True | Some x \<Rightarrow> \<bar>round_scale_2 x\<bar> < 10)) \<and>
     (set_columns upd r = Inr assigned \<longrightarrow>
        title assigned = (case upd_title upd of None \<Rightarrow> title r | Some v \<Rightarrow> v) \<and>
        description assigned = (case upd_description upd of None \<Rightarrow> description r | Some v \<Rightarrow> v) \<and>
        ai_priority_score assigned =
          (case upd_ai_priority_score upd of
             None \<Rightarrow> ai_priority_score r
           | Some x \<Rightarrow> Some (round_scale_2 x)))"
proof (intro impI)
  assume owner: "\<not> has_role d (Some u) admin \<and> student_id r = u"
  then have own: "update_policy d (Some u) r' = (student_id r' = u \<and> status r' = Pending)" for r'
    by (auto simp: update_policy_def students_can_update_def admins_can_update_def)
  from owner have r: "student_id r = u" by simp
  have a: "update_policy d (Some u) r \<longleftrightarrow> status r = Pending"
    by (simp add: own r)
  have b: "status r \<noteq> Pending \<and> set_columns upd r = Inr assigned \<longrightarrow>
        update_row d (Some u) now upd r = Inr skipped"
    by (auto simp: update_row_assigned own)
  have c: "status r \<noteq> Pending \<longrightarrow> (\<forall>new. update_row d (Some u) now upd r \<noteq> Inr (updated new))"
    by (cases "set_columns upd r") (simp_all add: update_row_Inl update_row_assigned own)
  have e: "status r = Pending \<and> upd_status upd \<in> {None, Some Pending} \<and>
      upd_student_id upd \<in> {None, Some u} \<and> set_columns upd r = Inr assigned \<and>
      (complaint_id assigned = complaint_id r \<or>
       complaint_id assigned \<notin> set (map complaint_id (complaints d))) \<longrightarrow>
        update_row d (Some u) now upd r = Inr (updated (update_updated_at_column now assigned))"
  proof
    assume h: "status r = Pending \<and> upd_status upd \<in> {None, Some Pending} \<and>
      upd_student_id upd \<in> {None, Some u} \<and> set_columns upd r = Inr assigned \<and>
      (complaint_id assigned = complaint_id r \<or>
       complaint_id assigned \<notin> set (map complaint_id (complaints d)))"
    then have s: "set_columns upd r = Inr assigned" by simp
    from h set_columns_fields(1) [OF s] have st: "status assigned = Pending" by auto
    from h set_columns_fields(2) [OF s] r have ow: "student_id assigned = u" by auto
    from h have code: "complaint_id assigned = complaint_id r \<or>
       complaint_id assigned \<notin> set (map complaint_id (complaints d))" by simp
    from h have p: "status r = Pending" by simp
    from st ow code p r
    show "update_row d (Some u) now upd r = Inr (updated (update_updated_at_column now assigned))"
      unfolding update_row_assigned [OF s] own
      by (auto simp: update_updated_at_column_def)
  qed
  have f: "status r = Pending \<and> upd_status upd = Some s \<and> s \<noteq> Pending \<and>
      set_columns upd r = Inr assigned \<longrightarrow>
        update_row d (Some u) now upd r = Inl row_level_security_violation"
  proof
    assume h: "status r = Pending \<and> upd_status upd = Some s \<and> s \<noteq> Pending \<and>
      set_columns upd r = Inr assigned"
    then have s: "set_columns upd r = Inr assigned" by simp
    from h set_columns_fields(1) [OF s] have "status assigned \<noteq> Pending" by simp
    with h r
    show "update_row d (Some u) now upd r = Inl row_level_security_violation"
      unfolding update_row_assigned [OF s] own
      by (simp add: update_updated_at_column_def)
  qed
  have g: "status r = Pending \<and> set_columns upd r = Inl e \<longrightarrow>
        update_row d (Some u) now upd r = Inl e"
    by (simp add: update_row_Inl)
  have i: "(\<exists>new. set_columns upd r = Inr new) \<longleftrightarrow>
        (case upd_ai_priority_score upd of None \<Rightarrow> True | Some x \<Rightarrow> \<bar>round_scale_2 x\<bar> < 10)"
    by (rule set_columns_succeeds)
  have j: "set_columns upd r = Inr assigned \<longrightarrow>
        title assigned = (case upd_title upd of None \<Rightarrow> title r | Some v \<Rightarrow> v) \<and>
        description assigned = (case upd_description upd of None \<Rightarrow> description r | Some v \<Rightarrow> v) \<and>
        ai_priority_score assigned =
          (case upd_ai_priority_score upd of
             None \<Rightarrow> ai_priority_score r
           | Some x \<Rightarrow> Some (round_scale_2 x))"
    using set_columns_fields(4,5,8) [of upd r assigned] by simp
  from a b c e f g i j
  show "(update_policy d (Some u) r \<longleftrightarrow> status r = Pending) \<and>
     (status r \<noteq> Pending \<and> set_columns upd r = Inr assigned \<longrightarrow>
        update_row d (Some u) now upd r = Inr skipped) \<and>
     (status r \<noteq> Pending \<longrightarrow> (\<forall>new. update_row d (Some u) now upd r \<noteq> Inr (updated new))) \<and>
     (status r = Pending \<and> upd_status upd \<in> {None, Some Pending} \<and>
      upd_student_id upd \<in> {None, Some u} \<and> set_columns upd r = Inr assigned \<and>
      (complaint_id assigned = complaint_id r \<or>
       complaint_id assigned \<notin> set (map complaint_id (complaints d))) \<longrightarrow>
        update_row d (Some u) now upd r = Inr (updated (update_updated_at_column now assigned))) \<and>
     (status r = Pending \<and> upd_status upd = Some s \<and> s \<noteq> Pending \<and>
      set_columns upd r = Inr assigned \<longrightarrow>
        update_row d (Some u) now upd r = Inl row_level_security_violation) \<and>
     (status r = Pending \<and> set_columns upd r = Inl e \<longrightarrow>
        update_row d (Some u) now upd r = Inl e) \<and>
     ((\<exists>new. set_columns upd r = Inr new) \<longleftrightarrow>
        (case upd_ai_priority_score upd of None \<Rightarrow> True | Some x \<Rightarrow> \<bar>round_scale_2 x\<bar> < 10)) \<and>
     (set_columns upd r = Inr assigned \<longrightarrow>
        title assigned = (case upd_title upd of None \<Rightarrow> title r | Some v \<Rightarrow> v) \<and>
        description assigned = (case upd_description upd of None \<Rightarrow> description r | Some v \<Rightarrow> v) \<and>
        ai_priority_score assigned =
          (case upd_ai_priority_score upd of
             None \<Rightarrow> ai_priority_score r
           | Some x \<Rightarrow> Some (round_scale_2 x)))"
    by - (intro conjI; assumption)
qed

theorem student_update_only_while_pending_witness:
  "update_row example_db_1 (Some 1) example_now (no_change\<lparr>upd_title := Some ''Projector''\<rparr>)
     example_complaint
     = Inr (updated (example_complaint\<lparr>title := ''Projector''\<rparr>)) \<and>
   update_row example_db_1 (Some 1) example_now (no_change\<lparr>upd_title := Some ''Projector''\<rparr>)
     (example_complaint\<lparr>status := Resolved\<rparr>) = Inr skipped \<and>
   update_row example_db_1 (Some 1) example_now (no_change\<lparr>upd_status := Some Withdrawn\<rparr>)
     example_complaint = Inl row_level_security_violation \<and>
   update_row example_db_1 (Some 1) example_now (no_change\<lparr>upd_ai_priority_score := Some 100\<rparr>)
     example_complaint = Inl numeric_field_overflow \<and>
   update_row example_db_1 (Some 1) example_now (no_change\<lparr>upd_ai_priority_score := Some (7 / 8)\<rparr>)
     example_complaint
     = Inr (updated (example_complaint\<lparr>ai_priority_score := Some (22 / 25)\<rparr>))"
proof -
  have h: "\<not> has_role example_db_1 (Some 1) admin \<and> student_id example_complaint = 1"
    and h': "\<not> has_role example_db_1 (Some 1) admin \<and>
      student_id (example_complaint\<lparr>status := Resolved\<rparr>) = 1"
    by (simp_all add: has_role_def example_db_1_def example_db_def example_complaint_def)
  have pending: "status example_complaint = Pending"
    and resolved: "status (example_complaint\<lparr>status := Resolved\<rparr>) \<noteq> Pending"
    by (simp_all add: example_complaint_def)
  have title_set: "set_columns (no_change\<lparr>upd_title := Some ''Projector''\<rparr>) example_complaint
      = Inr (example_complaint\<lparr>title := ''Projector''\<rparr>)"
    by code_simp
  have title_set': "set_columns (no_change\<lparr>upd_title := Some ''Projector''\<rparr>)
      (example_complaint\<lparr>status := Resolved\<rparr>)
      = Inr (example_complaint\<lparr>status := Resolved, title := ''Projector''\<rparr>)"
    by code_simp
  have status_set: "set_columns (no_change\<lparr>upd_status := Some Withdrawn\<rparr>) example_complaint
      = Inr (example_complaint\<lparr>status := Withdrawn\<rparr>)"
    by code_simp
  have big_score: "set_columns (no_change\<lparr>upd_ai_priority_score := Some 100\<rparr>) example_complaint
      = Inl numeric_field_overflow"
    by code_simp
  have score_set: "set_columns (no_change\<lparr>upd_ai_priority_score := Some (7 / 8)\<rparr>) example_complaint
      = Inr (example_complaint\<lparr>ai_priority_score := Some (22 / 25)\<rparr>)"
    by code_simp
  have p: "upd_status (no_change\<lparr>upd_title := Some ''Projector''\<rparr>) = None"
    "upd_student_id (no_change\<lparr>upd_title := Some ''Projector''\<rparr>) = None"
    "upd_status (no_change\<lparr>upd_status := Some Withdrawn\<rparr>) = Some Withdrawn"
    "upd_status (no_change\<lparr>upd_ai_priority_score := Some (7 / 8)\<rparr>) = None"
    "upd_student_id (no_change\<lparr>upd_ai_priority_score := Some (7 / 8)\<rparr>) = None"
    by (simp_all add: no_change_def)
  have same_code: "complaint_id (example_complaint\<lparr>title := ''Projector''\<rparr>)
      = complaint_id example_complaint"
    "complaint_id (example_complaint\<lparr>ai_priority_score := Some (22 / 25)\<rparr>)
      = complaint_id example_complaint"
    by simp_all
  have stamp: "update_updated_at_column example_now (example_complaint\<lparr>title := ''Projector''\<rparr>)
      = example_complaint\<lparr>title := ''Projector''\<rparr>"
    "update_updated_at_column example_now (example_complaint\<lparr>ai_priority_score := Some (22 / 25)\<rparr>)
      = example_complaint\<lparr>ai_priority_score := Some (22 / 25)\<rparr>"
    by (simp_all add: update_updated_at_column_def example_complaint_def)
  from h pending p title_set same_code
    student_update_only_while_pending [where d = example_db_1 and u = 1 and r = example_complaint
      and now = example_now and upd = "no_change\<lparr>upd_title := Some ''Projector''\<rparr>"
      and assigned = "example_complaint\<lparr>title := ''Projector''\<rparr>"]
  have 1: "update_row example_db_1 (Some 1) example_now (no_change\<lparr>upd_title := Some ''Projector''\<rparr>)
     example_complaint
     = Inr (updated (update_updated_at_column example_now (example_complaint\<lparr>title := ''Projector''\<rparr>)))"
    by simp
  from h' resolved title_set'
    student_update_only_while_pending [where d = example_db_1 and u = 1
      and r = "example_complaint\<lparr>status := Resolved\<rparr>" and now = example_now
      and upd = "no_change\<lparr>upd_title := Some ''Projector''\<rparr>"
      and assigned = "example_complaint\<lparr>status := Resolved, title := ''Projector''\<rparr>"]
  have 2: "update_row example_db_1 (Some 1) example_now (no_change\<lparr>upd_title := Some ''Projector''\<rparr>)
     (example_complaint\<lparr>status := Resolved\<rparr>) = Inr skipped"
    by simp
  from h pending p status_set
    student_update_only_while_pending [where d = example_db_1 and u = 1 and r = example_complaint
      and now = example_now and upd = "no_change\<lparr>upd_status := Some Withdrawn\<rparr>"
      and assigned = "example_complaint\<lparr>status := Withdrawn\<rparr>" and s = Withdrawn]
  have 3: "update_row example_db_1 (Some 1) example_now (no_change\<lparr>upd_status := Some Withdrawn\<rparr>)
     example_complaint = Inl row_level_security_violation"
    by simp
  from h pending big_score
    student_update_only_while_pending [where d = example_db_1 and u = 1 and r = example_complaint
      and now = example_now and upd = "no_change\<lparr>upd_ai_priority_score := Some 100\<rparr>"
      and e = numeric_field_overflow]
  have 4: "update_row example_db_1 (Some 1) example_now (no_change\<lparr>upd_ai_priority_score := Some 100\<rparr>)
     example_complaint = Inl numeric_field_overflow"
    by simp
  from h pending p score_set same_code
    student_update_only_while_pending [where d = example_db_1 and u = 1 and r = example_complaint
      and now = example_now and upd = "no_change\<lparr>upd_ai_priority_score := Some (7 / 8)\<rparr>"
      and assigned = "example_complaint\<lparr>ai_priority_score := Some (22 / 25)\<rparr>"]
  have 5: "update_row example_db_1 (Some 1) example_now
     (no_change\<lparr>upd_ai_priority_score := Some (7 / 8)\<rparr>) example_complaint
     = Inr (updated (update_updated_at_column example_now
         (example_complaint\<lparr>ai_priority_score := Some (22 / 25)\<rparr>)))"
    by simp
  from 1 2 3 4 5 show ?thesis by (simp only: stamp simp_thms)
qed

text \<open>
  The claim as stated has an update by the owning student succeed while the status is
  Pending: the owner's update that sets the status of their Pending complaint to Withdrawn
  is refused, and the table is not changed.
\<close>

theorem student_update_counterexample:
  "student_id example_complaint = 1 \<and> status example_complaint = Pending \<and>
   update_row example_db_1 (Some 1) example_now (no_change\<lparr>upd_status := Some Withdrawn\<rparr>)
     example_complaint = Inl row_level_security_violation \<and>
   update_complaints (Some 1) example_now 10 (no_change\<lparr>upd_status := Some Withdrawn\<rparr>) example_db_1
     = Inl row_level_security_violation"
  by code_simp

section \<open>Responses of the classification endpoint\<close>

lemma not_falsy_Some: "\<not> falsy x \<Longrightarrow> \<exists>v. x = Some v"
  by (cases x) auto

text \<open>The handler once the gateway has answered with a status from 200 to 299.\<close>

lemma analyze_gateway_ok:
  assumes "req_json env = Inr b" and "b \<noteq> JNull"
    and "LOVABLE_API_KEY env = Some k" and "k \<noteq> []"
    and "fetch_result env = Inr resp"
    and "200 \<le> resp_status resp" and "resp_status resp \<le> 299"
  shows "analyze JSON_parse env =
    (case resp_json resp of
       Inl m \<Rightarrow> Inl m
     | Inr data \<Rightarrow>
         if data = JNull then Inl TypeError_message
         else if falsy (first_tool_call data) then Inl ''No valid response from AI''
         else if falsy (opt_chain (get_prop ''arguments'')
                   (get_prop ''function'' (the (first_tool_call data))))
           then Inl ''No valid response from AI''
         else (case JSON_parse (the (opt_chain (get_prop ''arguments'')
                   (get_prop ''function'' (the (first_tool_call data))))) of
                 Inl m \<Rightarrow> Inl m
               | Inr analysis \<Rightarrow> Inr \<lparr>status_code = 200, body = Some analysis\<rparr>))"
  using assms by (simp add: analyze_def Let_def split: sum.splits)

text \<open>The handler once the gateway has answered with any other status.\<close>

lemma analyze_gateway_not_ok:
  assumes "req_json env = Inr b" and "b \<noteq> JNull"
    and "LOVABLE_API_KEY env = Some k" and "k \<noteq> []"
    and "fetch_result env = Inr resp"
    and "\<not> (200 \<le> resp_status resp \<and> resp_status resp \<le> 299)"
  shows "analyze JSON_parse env =
    (case resp_text resp of
       Inl m \<Rightarrow> Inl m
     | Inr errorText \<Rightarrow>
         if resp_status resp = 429 then
           Inr \<lparr>status_code = 429, body = error_body ''Rate limit exceeded. Please try again later.''\<rparr>
         else if resp_status resp = 402 then
           Inr \<lparr>status_code = 402,
                body = error_body ''AI service requires payment. Please contact administrator.''\<rparr>
         else Inl (''AI Gateway error: '' @ show_nat (resp_status resp)))"
  using assms by (simp add: analyze_def)

lemma analyze_reaches_gateway:
  assumes "analyze JSON_parse env = Inr r"
  obtains b k resp where "req_json env = Inr b" and "b \<noteq> JNull"
    and "LOVABLE_API_KEY env = Some k" and "k \<noteq> []"
    and "fetch_result env = Inr resp" and "gateway_status env = Some (resp_status resp)"
proof -
  from assms obtain b where b: "req_json env = Inr b"
    by (cases "req_json env") (simp_all add: analyze_def)
  from assms b have nb: "b \<noteq> JNull"
    by (auto simp: analyze_def split: if_splits)
  from assms b nb obtain k where key: "LOVABLE_API_KEY env = Some k" "k \<noteq> []"
    by (cases "LOVABLE_API_KEY env") (auto simp: analyze_def split: if_splits)
  from assms b nb key obtain resp where resp: "fetch_result env = Inr resp"
    by (cases "fetch_result env") (auto simp: analyze_def split: if_splits)
  from b nb key resp have "gateway_status env = Some (resp_status resp)"
    by (simp add: gateway_status_def)
  with b nb key resp show ?thesis by (rule that)
qed

lemma analyze_returns:
  assumes "analyze JSON_parse env = Inr r"
  shows "(status_code r = 200 \<and>
        (\<exists>s data tc a v. gateway_status env = Some s \<and> 200 \<le> s \<and> s \<le> 299 \<and>
           resp_json (projr (fetch_result env)) = Inr data \<and> data \<noteq> JNull \<and>
           first_tool_call data = Some tc \<and> \<not> falsy (Some tc) \<and>
           opt_chain (get_prop ''arguments'') (get_prop ''function'' tc) = Some a \<and>
           \<not> falsy (Some a) \<and> JSON_parse a = Inr v \<and> body r = Some v)) \<or>
     (status_code r = 429 \<and> body r = error_body ''Rate limit exceeded. Please try again later.'' \<and>
        gateway_status env = Some 429) \<or>
     (status_code r = 402 \<and>
        body r = error_body ''AI service requires payment. Please contact administrator.'' \<and>
        gateway_status env = Some 402)"
proof -
  from assms obtain b k resp where b: "req_json env = Inr b" and nb: "b \<noteq> JNull"
    and key: "LOVABLE_API_KEY env = Some k" "k \<noteq> []"
    and resp: "fetch_result env = Inr resp" and gs: "gateway_status env = Some (resp_status resp)"
    by (rule analyze_reaches_gateway)
  show ?thesis
  proof (cases "200 \<le> resp_status resp \<and> resp_status resp \<le> 299")
    case False
    from assms analyze_gateway_not_ok [OF b nb key resp False, of JSON_parse] gs
    show ?thesis
      by (auto split: sum.splits if_splits)
  next
    case True
    then have ok: "200 \<le> resp_status resp" "resp_status resp \<le> 299" by simp_all
    note eq = analyze_gateway_ok [OF b nb key resp ok, of JSON_parse]
    from assms eq obtain data where data: "resp_json resp = Inr data"
      by (cases "resp_json resp") simp_all
    from assms eq data have dn: "data \<noteq> JNull"
      by (auto split: if_splits)
    from assms eq data dn have t: "\<not> falsy (first_tool_call data)"
      by (auto split: if_splits)
    then obtain tc where tc: "first_tool_call data = Some tc"
      using not_falsy_Some by blast
    from assms eq data dn t tc
    have ar: "\<not> falsy (opt_chain (get_prop ''arguments'') (get_prop ''function'' tc))"
      by (auto split: if_splits)
    then obtain a where a: "opt_chain (get_prop ''arguments'') (get_prop ''function'' tc) = Some a"
      using not_falsy_Some by blast
    from assms eq data dn t tc ar a obtain v
      where v: "JSON_parse a = Inr v" and r: "r = \<lparr>status_code = 200, body = Some v\<rparr>"
      by (cases "JSON_parse a") auto
    from t tc have t': "\<not> falsy (Some tc)" by simp
    from ar a have a': "\<not> falsy (Some a)" by simp
    from resp data have dj: "resp_json (projr (fetch_result env)) = Inr data" by simp
    from r have "status_code r = 200" and "body r = Some v" by simp_all
    with gs ok dj dn tc t' a a' v show ?thesis by blast
  qed
qed

lemma analyze_rate_limit:
  "gateway_status env = Some 429 \<Longrightarrow> resp_text (projr (fetch_result env)) = Inr t \<Longrightarrow>
     analyze JSON_parse env =
       Inr \<lparr>status_code = 429, body = error_body ''Rate limit exceeded. Please try again later.''\<rparr>"
  unfolding analyze_def gateway_status_def Let_def
  by (auto split: sum.splits if_splits option.splits)

lemma analyze_payment_required:
  "gateway_status env = Some 402 \<Longrightarrow> resp_text (projr (fetch_result env)) = Inr t \<Longrightarrow>
     analyze JSON_parse env =
       Inr \<lparr>status_code = 402,
            body = error_body ''AI service requires payment. Please contact administrator.''\<rparr>"
  unfolding analyze_def gateway_status_def Let_def
  by (auto split: sum.splits if_splits option.splits)

lemma analyze_missing_key:
  "req_json env = Inr b \<Longrightarrow> b \<noteq> JNull \<Longrightarrow> LOVABLE_API_KEY env = None \<Longrightarrow>
     analyze JSON_parse env = Inl ''LOVABLE_API_KEY is not configured''"
  unfolding analyze_def by simp

lemma analyze_no_tool_call:
  "gateway_status env = Some s \<Longrightarrow> 200 \<le> s \<Longrightarrow> s \<le> 299 \<Longrightarrow>
   resp_json (projr (fetch_result env)) = Inr data \<Longrightarrow> data \<noteq> JNull \<Longrightarrow>
   first_tool_call data = None \<Longrightarrow>
     analyze JSON_parse env = Inl ''No valid response from AI''"
  unfolding analyze_def gateway_status_def Let_def
  by (auto split: sum.splits if_splits option.splits)

lemma analyze_arguments:
  "gateway_status env = Some s \<Longrightarrow> 200 \<le> s \<Longrightarrow> s \<le> 299 \<Longrightarrow>
   resp_json (projr (fetch_result env)) = Inr data \<Longrightarrow> data \<noteq> JNull \<Longrightarrow>
   first_tool_call data = Some tc \<Longrightarrow> \<not> falsy (Some tc) \<Longrightarrow>
   opt_chain (get_prop ''arguments'') (get_prop ''function'' tc) = Some a \<Longrightarrow> \<not> falsy (Some a) \<Longrightarrow>
     analyze JSON_parse env = and_then (JSON_parse a) (\<lambda>v. Inr \<lparr>status_code = 200, body = Some v\<rparr>)"
  unfolding analyze_def gateway_status_def Let_def and_then_def
  by (auto split: sum.splits if_splits option.splits)

text \<open>
  C8, as the code has it. A preflight (OPTIONS) request is answered with status 200 and
  no body. Every other request is answered either with status 200 or with an error
  object \<^verbatim>\<open>{error: string}\<close> and status 429, 402 or 500. Status 200 is returned exactly
  when the gateway answered with a status from 200 to 299 and JSON whose first tool call
  has non-empty arguments that \<^verbatim>\<open>JSON.parse\<close> accepts, and the body is then what
  \<^verbatim>\<open>JSON.parse\<close> made of these arguments: the endpoint does not look whether the four
  properties are there. Status 429 is returned exactly for a gateway response of status
  429 and status 402 exactly for one of status 402 (when the response's text could be
  read); a missing credential, a response without a tool call and arguments that
  \<^verbatim>\<open>JSON.parse\<close> rejects are answered with status 500.
\<close>

theorem endpoint_responses:
  "(req_method env = ''OPTIONS'' \<longrightarrow>
      serve_handler JSON_parse env = \<lparr>status_code = 200, body = None\<rparr>) \<and>
   (req_method env \<noteq> ''OPTIONS'' \<longrightarrow>
      (status_code (serve_handler JSON_parse env) = 200 \<and>
         (\<exists>s data tc a v. gateway_status env = Some s \<and> 200 \<le> s \<and> s \<le> 299 \<and>
            resp_json (projr (fetch_result env)) = Inr data \<and> data \<noteq> JNull \<and>
            first_tool_call data = Some tc \<and> \<not> falsy (Some tc) \<and>
            opt_chain (get_prop ''arguments'') (get_prop ''function'' tc) = Some a \<and>
            \<not> falsy (Some a) \<and> JSON_parse a = Inr v \<and>
            body (serve_handler JSON_parse env) = Some v)) \<or>
      (status_code (serve_handler JSON_parse env) \<in> {429, 402, 500} \<and>
         is_error_object (body (serve_handler JSON_parse env)))) \<and>
   (req_method env \<noteq> ''OPTIONS'' \<and> gateway_status env = Some s \<and> 200 \<le> s \<and> s \<le> 299 \<and>
    resp_json (projr (fetch_result env)) = Inr data \<and> data \<noteq> JNull \<and>
    first_tool_call data = Some tc \<and> \<not> falsy (Some tc) \<and>
    opt_chain (get_prop ''arguments'') (get_prop ''function'' tc) = Some a \<and> \<not> falsy (Some a) \<and>
    JSON_parse a = Inr v \<longrightarrow>
      serve_handler JSON_parse env = \<lparr>status_code = 200, body = Some v\<rparr>) \<and>
   (req_method env \<noteq> ''OPTIONS'' \<and> status_code (serve_handler JSON_parse env) = 429 \<longrightarrow>
      gateway_status env = Some 429) \<and>
   (req_method env \<noteq> ''OPTIONS'' \<and> status_code (serve_handler JSON_parse env) = 402 \<longrightarrow>
      gateway_status env = Some 402) \<and>
   (req_method env \<noteq> ''OPTIONS'' \<and> gateway_status env = Some 429 \<and>
    resp_text (projr (fetch_result env)) = Inr t \<longrightarrow>
      status_code (serve_handler JSON_parse env) = 429) \<and>
   (req_method env \<noteq> ''OPTIONS'' \<and> gateway_status env = Some 402 \<and>
    resp_text (projr (fetch_result env)) = Inr t \<longrightarrow>
      status_code (serve_handler JSON_parse env) = 402) \<and>
   (req_method env \<noteq> ''OPTIONS'' \<and> req_json env = Inr b \<and> b \<noteq> JNull \<and>
    LOVABLE_API_KEY env = None \<longrightarrow>
      serve_handler JSON_parse env =
        \<lparr>status_code = 500, body = error_body ''LOVABLE_API_KEY is not configured''\<rparr>) \<and>
   (req_method env \<noteq> ''OPTIONS'' \<and> gateway_status env = Some s \<and> 200 \<le> s \<and> s \<le> 299 \<and>
    resp_json (projr (fetch_result env)) = Inr data \<and> data \<noteq> JNull \<and>
    first_tool_call data = None \<longrightarrow>
      serve_handler JSON_parse env =
        \<lparr>status_code = 500, body = error_body ''No valid response from AI''\<rparr>) \<and>
   (req_method env \<noteq> ''OPTIONS'' \<and> gateway_status env = Some s \<and> 200 \<le> s \<and> s \<le> 299 \<and>
    resp_json (projr (fetch_result env)) = Inr data \<and> data \<noteq> JNull \<and>
    first_tool_call data = Some tc \<and> \<not> falsy (Some tc) \<and>
    opt_chain (get_prop ''arguments'') (get_prop ''function'' tc) = Some a \<and> \<not> falsy (Some a) \<and>
    JSON_parse a = Inl m \<longrightarrow>
      serve_handler JSON_parse env = \<lparr>status_code = 500, body = error_body m\<rparr>)"
proof -
  have options: "req_method env = ''OPTIONS'' \<longrightarrow>
      serve_handler JSON_parse env = \<lparr>status_code = 200, body = None\<rparr>"
    by (simp add: serve_handler_def)
  have either: "req_method env \<noteq> ''OPTIONS'' \<longrightarrow>
      (status_code (serve_handler JSON_parse env) = 200 \<and>
         (\<exists>s data tc a v. gateway_status env = Some s \<and> 200 \<le> s \<and> s \<le> 299 \<and>
            resp_json (projr (fetch_result env)) = Inr data \<and> data \<noteq> JNull \<and>
            first_tool_call data = Some tc \<and> \<not> falsy (Some tc) \<and>
            opt_chain (get_prop ''arguments'') (get_prop ''function'' tc) = Some a \<and>
            \<not> falsy (Some a) \<and> JSON_parse a = Inr v \<and>
            body (serve_handler JSON_parse env) = Some v)) \<or>
      (status_code (serve_handler JSON_parse env) \<in> {429, 402, 500} \<and>
         is_error_object (body (serve_handler JSON_parse env)))"
  proof
    assume m: "req_method env \<noteq> ''OPTIONS''"
    show "(status_code (serve_handler JSON_parse env) = 200 \<and>
         (\<exists>s data tc a v. gateway_status env = Some s \<and> 200 \<le> s \<and> s \<le> 299 \<and>
            resp_json (projr (fetch_result env)) = Inr data \<and> data \<noteq> JNull \<and>
            first_tool_call data = Some tc \<and> \<not> falsy (Some tc) \<and>
            opt_chain (get_prop ''arguments'') (get_prop ''function'' tc) = Some a \<and>
            \<not> falsy (Some a) \<and> JSON_parse a = Inr v \<and>
            body (serve_handler JSON_parse env) = Some v)) \<or>
      (status_code (serve_handler JSON_parse env) \<in> {429, 402, 500} \<and>
         is_error_object (body (serve_handler JSON_parse env)))"
    proof (cases "analyze JSON_parse env")
      case (Inl e)
      with m show ?thesis
        by (simp add: serve_handler_def is_error_object_def error_body_def)
    next
      case (Inr r)
      with m have h: "serve_handler JSON_parse env = r"
        by (simp add: serve_handler_def)
      from analyze_returns [OF Inr] show ?thesis
        unfolding h
        by (elim disjE conjE) (simp_all add: is_error_object_def error_body_def)
    qed
  qed
  have parsed: "req_method env \<noteq> ''OPTIONS'' \<and> gateway_status env = Some s \<and> 200 \<le> s \<and> s \<le> 299 \<and>
    resp_json (projr (fetch_result env)) = Inr data \<and> data \<noteq> JNull \<and>
    first_tool_call data = Some tc \<and> \<not> falsy (Some tc) \<and>
    opt_chain (get_prop ''arguments'') (get_prop ''function'' tc) = Some a \<and> \<not> falsy (Some a) \<and>
    JSON_parse a = Inr v \<longrightarrow>
      serve_handler JSON_parse env = \<lparr>status_code = 200, body = Some v\<rparr>"
    by (simp add: serve_handler_def analyze_arguments and_then_def)
  have from_429: "req_method env \<noteq> ''OPTIONS'' \<and> status_code (serve_handler JSON_parse env) = 429 \<longrightarrow>
      gateway_status env = Some 429"
  proof
    assume "req_method env \<noteq> ''OPTIONS'' \<and> status_code (serve_handler JSON_parse env) = 429"
    then have m: "req_method env \<noteq> ''OPTIONS''"
      and s: "status_code (serve_handler JSON_parse env) = 429"
      by simp_all
    show "gateway_status env = Some 429"
    proof (cases "analyze JSON_parse env")
      case (Inl e)
      with m s show ?thesis by (simp add: serve_handler_def)
    next
      case (Inr r)
      with m have h: "serve_handler JSON_parse env = r"
        by (simp add: serve_handler_def)
      from analyze_returns [OF Inr] s show ?thesis
        unfolding h by (elim disjE conjE) simp_all
    qed
  qed
  have from_402: "req_method env \<noteq> ''OPTIONS'' \<and> status_code (serve_handler JSON_parse env) = 402 \<longrightarrow>
      gateway_status env = Some 402"
  proof
    assume "req_method env \<noteq> ''OPTIONS'' \<and> status_code (serve_handler JSON_parse env) = 402"
    then have m: "req_method env \<noteq> ''OPTIONS''"
      and s: "status_code (serve_handler JSON_parse env) = 402"
      by simp_all
    show "gateway_status env = Some 402"
    proof (cases "analyze JSON_parse env")
      case (Inl e)
      with m s show ?thesis by (simp add: serve_handler_def)
    next
      case (Inr r)
      with m have h: "serve_handler JSON_parse env = r"
        by (simp add: serve_handler_def)
      from analyze_returns [OF Inr] s show ?thesis
        unfolding h by (elim disjE conjE) simp_all
    qed
  qed
  have to_429: "req_method env \<noteq> ''OPTIONS'' \<and> gateway_status env = Some 429 \<and>
    resp_text (projr (fetch_result env)) = Inr t \<longrightarrow>
      status_code (serve_handler JSON_parse env) = 429"
    by (simp add: serve_handler_def analyze_rate_limit)
  have to_402: "req_method env \<noteq> ''OPTIONS'' \<and> gateway_status env = Some 402 \<and>
    resp_text (projr (fetch_result env)) = Inr t \<longrightarrow>
      status_code (serve_handler JSON_parse env) = 402"
    by (simp add: serve_handler_def analyze_payment_required)
  have no_key: "req_method env \<noteq> ''OPTIONS'' \<and> req_json env = Inr b \<and> b \<noteq> JNull \<and>
    LOVABLE_API_KEY env = None \<longrightarrow>
      serve_handler JSON_parse env =
        \<lparr>status_code = 500, body = error_body ''LOVABLE_API_KEY is not configured''\<rparr>"
    by (simp add: serve_handler_def analyze_missing_key)
  have no_tool: "req_method env \<noteq> ''OPTIONS'' \<and> gateway_status env = Some s \<and> 200 \<le> s \<and> s \<le> 299 \<and>
    resp_json (projr (fetch_result env)) = Inr data \<and> data \<noteq> JNull \<and>
    first_tool_call data = None \<longrightarrow>
      serve_handler JSON_parse env =
        \<lparr>status_code = 500, body = error_body ''No valid response from AI''\<rparr>"
    by (simp add: serve_handler_def analyze_no_tool_call)
  have unparsable: "req_method env \<noteq> ''OPTIONS'' \<and> gateway_status env = Some s \<and> 200 \<le> s \<and> s \<le> 299 \<and>
    resp_json (projr (fetch_result env)) = Inr data \<and> data \<noteq> JNull \<and>
    first_tool_call data = Some tc \<and> \<not> falsy (Some tc) \<and>
    opt_chain (get_prop ''arguments'') (get_prop ''function'' tc) = Some a \<and> \<not> falsy (Some a) \<and>
    JSON_parse a = Inl m \<longrightarrow>
      serve_handler JSON_parse env = \<lparr>status_code = 500, body = error_body m\<rparr>"
    by (simp add: serve_handler_def analyze_arguments and_then_def)
  from options either parsed from_429 from_402 to_429 to_402 no_key no_tool unparsable
  show ?thesis by - (intro conjI; assumption)
qed

theorem endpoint_responses_witness:
  "serve_handler example_JSON_parse (example_request ''OPTIONS'' 200 ''{}'')
     = \<lparr>status_code = 200, body = None\<rparr> \<and>
   status_code (serve_handler example_JSON_parse (example_request ''POST'' 429 [])) = 429 \<and>
   status_code (serve_handler example_JSON_parse (example_request ''POST'' 402 [])) = 402 \<and>
   serve_handler example_JSON_parse ((example_request ''POST'' 200 ''{}'')\<lparr>LOVABLE_API_KEY := None\<rparr>)
     = \<lparr>status_code = 500, body = error_body ''LOVABLE_API_KEY is not configured''\<rparr> \<and>
   serve_handler example_JSON_parse ((example_request ''POST'' 200 ''{}'')
       \<lparr>fetch_result := Inr \<lparr>resp_status = 200, resp_text = Inr [], resp_json = Inr (JObj [])\<rparr>\<rparr>)
     = \<lparr>status_code = 500, body = error_body ''No valid response from AI''\<rparr> \<and>
   serve_handler example_JSON_parse (example_request ''POST'' 200 ''oops'')
     = \<lparr>status_code = 500, body = error_body ''Unexpected token''\<rparr> \<and>
   serve_handler example_JSON_parse (example_request ''POST'' 200 ''{}'')
     = \<lparr>status_code = 200, body = Some (JObj [])\<rparr>"
proof -
  let ?tc = "JObj [(''function'', JObj [(''name'', JStr ''analyze_complaint''), (''arguments'', JStr ''oops'')])]"
  have options: "req_method (example_request ''OPTIONS'' 200 ''{}'') = ''OPTIONS''"
    by (simp add: example_request_def)
  have h429: "req_method (example_request ''POST'' 429 []) \<noteq> ''OPTIONS'' \<and>
      gateway_status (example_request ''POST'' 429 []) = Some 429 \<and>
      resp_text (projr (fetch_result (example_request ''POST'' 429 []))) = Inr []"
    by (simp add: example_request_def example_gateway_response_def gateway_status_def)
  have h402: "req_method (example_request ''POST'' 402 []) \<noteq> ''OPTIONS'' \<and>
      gateway_status (example_request ''POST'' 402 []) = Some 402 \<and>
      resp_text (projr (fetch_result (example_request ''POST'' 402 []))) = Inr []"
    by (simp add: example_request_def example_gateway_response_def gateway_status_def)
  have hkey: "req_method ((example_request ''POST'' 200 ''{}'')\<lparr>LOVABLE_API_KEY := None\<rparr>) \<noteq> ''OPTIONS'' \<and>
      req_json ((example_request ''POST'' 200 ''{}'')\<lparr>LOVABLE_API_KEY := None\<rparr>)
        = Inr (JObj [(''title'', JStr ''Broken projector in Lab 3''),
            (''description'', JStr ''Projector shows no image.''), (''category'', JStr ''Facilities'')]) \<and>
      JObj [(''title'', JStr ''Broken projector in Lab 3''),
            (''description'', JStr ''Projector shows no image.''), (''category'', JStr ''Facilities'')] \<noteq> JNull \<and>
      LOVABLE_API_KEY ((example_request ''POST'' 200 ''{}'')\<lparr>LOVABLE_API_KEY := None\<rparr>) = None"
    by (simp add: example_request_def)
  have htool: "req_method ((example_request ''POST'' 200 ''{}'')
       \<lparr>fetch_result := Inr \<lparr>resp_status = 200, resp_text = Inr [], resp_json = Inr (JObj [])\<rparr>\<rparr>) \<noteq> ''OPTIONS'' \<and>
      gateway_status ((example_request ''POST'' 200 ''{}'')
       \<lparr>fetch_result := Inr \<lparr>resp_status = 200, resp_text = Inr [], resp_json = Inr (JObj [])\<rparr>\<rparr>) = Some 200 \<and>
      (200::nat) \<le> 200 \<and> (200::nat) \<le> 299 \<and>
      resp_json (projr (fetch_result ((example_request ''POST'' 200 ''{}'')
       \<lparr>fetch_result := Inr \<lparr>resp_status = 200, resp_text = Inr [], resp_json = Inr (JObj [])\<rparr>\<rparr>))) = Inr (JObj []) \<and>
      JObj [] \<noteq> JNull \<and> first_tool_call (JObj []) = None"
    by (simp add: example_request_def gateway_status_def first_tool_call_def)
  have hbad: "req_method (example_request ''POST'' 200 ''oops'') \<noteq> ''OPTIONS'' \<and>
      gateway_status (example_request ''POST'' 200 ''oops'') = Some 200 \<and>
      (200::nat) \<le> 200 \<and> (200::nat) \<le> 299 \<and>
      resp_json (projr (fetch_result (example_request ''POST'' 200 ''oops'')))
        = Inr (JObj [(''choices'', JArr [JObj [(''message'', JObj [(''tool_calls'', JArr [?tc])])]])]) \<and>
      JObj [(''choices'', JArr [JObj [(''message'', JObj [(''tool_calls'', JArr [?tc])])]])] \<noteq> JNull \<and>
      first_tool_call (JObj [(''choices'', JArr [JObj [(''message'', JObj [(''tool_calls'', JArr [?tc])])]])])
        = Some ?tc \<and>
      \<not> falsy (Some ?tc) \<and>
      opt_chain (get_prop ''arguments'') (get_prop ''function'' ?tc) = Some (JStr ''oops'') \<and>
      \<not> falsy (Some (JStr ''oops'')) \<and>
      example_JSON_parse (JStr ''oops'') = Inl ''Unexpected token''"
    by (simp add: example_request_def example_gateway_response_def gateway_status_def
        first_tool_call_def example_JSON_parse_def)
  let ?ok = "JObj [(''function'', JObj [(''name'', JStr ''analyze_complaint''), (''arguments'', JStr ''{}'')])]"
  have hok: "req_method (example_request ''POST'' 200 ''{}'') \<noteq> ''OPTIONS'' \<and>
      gateway_status (example_request ''POST'' 200 ''{}'') = Some 200 \<and>
      (200::nat) \<le> 200 \<and> (200::nat) \<le> 299 \<and>
      resp_json (projr (fetch_result (example_request ''POST'' 200 ''{}'')))
        = Inr (JObj [(''choices'', JArr [JObj [(''message'', JObj [(''tool_calls'', JArr [?ok])])]])]) \<and>
      JObj [(''choices'', JArr [JObj [(''message'', JObj [(''tool_calls'', JArr [?ok])])]])] \<noteq> JNull \<and>
      first_tool_call (JObj [(''choices'', JArr [JObj [(''message'', JObj [(''tool_calls'', JArr [?ok])])]])])
        = Some ?ok \<and>
      \<not> falsy (Some ?ok) \<and>
      opt_chain (get_prop ''arguments'') (get_prop ''function'' ?ok) = Some (JStr ''{}'') \<and>
      \<not> falsy (Some (JStr ''{}'')) \<and>
      example_JSON_parse (JStr ''{}'') = Inr (JObj [])"
    by (simp add: example_request_def example_gateway_response_def gateway_status_def
        first_tool_call_def example_JSON_parse_def)
  note e = endpoint_responses [where JSON_parse = example_JSON_parse]
  from options e [where env = "example_request ''OPTIONS'' 200 ''{}''"]
  have 1: "serve_handler example_JSON_parse (example_request ''OPTIONS'' 200 ''{}'')
     = \<lparr>status_code = 200, body = None\<rparr>"
    by blast
  from h429 e [where env = "example_request ''POST'' 429 []" and t = "[]"]
  have 2: "status_code (serve_handler example_JSON_parse (example_request ''POST'' 429 [])) = 429"
    by blast
  from h402 e [where env = "example_request ''POST'' 402 []" and t = "[]"]
  have 3: "status_code (serve_handler example_JSON_parse (example_request ''POST'' 402 [])) = 402"
    by blast
  from hkey e [where env = "(example_request ''POST'' 200 ''{}'')\<lparr>LOVABLE_API_KEY := None\<rparr>"]
  have 4: "serve_handler example_JSON_parse ((example_request ''POST'' 200 ''{}'')\<lparr>LOVABLE_API_KEY := None\<rparr>)
     = \<lparr>status_code = 500, body = error_body ''LOVABLE_API_KEY is not configured''\<rparr>"
    by blast
  from htool e [where env = "(example_request ''POST'' 200 ''{}'')
       \<lparr>fetch_result := Inr \<lparr>resp_status = 200, resp_text = Inr [], resp_json = Inr (JObj [])\<rparr>\<rparr>"]
  have 5: "serve_handler example_JSON_parse ((example_request ''POST'' 200 ''{}'')
       \<lparr>fetch_result := Inr \<lparr>resp_status = 200, resp_text = Inr [], resp_json = Inr (JObj [])\<rparr>\<rparr>)
     = \<lparr>status_code = 500, body = error_body ''No valid response from AI''\<rparr>"
    by blast
  from hbad e [where env = "example_request ''POST'' 200 ''oops''"]
  have 6: "serve_handler example_JSON_parse (example_request ''POST'' 200 ''oops'')
     = \<lparr>status_code = 500, body = error_body ''Unexpected token''\<rparr>"
    by blast
  from hok e [where env = "example_request ''POST'' 200 ''{}''"]
  have 7: "serve_handler example_JSON_parse (example_request ''POST'' 200 ''{}'')
     = \<lparr>status_code = 200, body = Some (JObj [])\<rparr>"
    by blast
  from 1 2 3 4 5 6 7 show ?thesis by blast
qed

text \<open>
  The claim as stated has every request answered with the structured result or an error
  object, and a malformed result answered with status 500. When the tool call's
  arguments are the text \<^verbatim>\<open>{}\<close>, which \<^verbatim>\<open>JSON.parse\<close> reads as the empty object, the
  endpoint answers with status 200 and the empty object, which is neither; and a
  preflight request is answered with no body.
\<close>

theorem endpoint_responses_counterexample:
  "status_code (serve_handler example_JSON_parse (example_request ''POST'' 200 ''{}'')) = 200 \<and>
   body (serve_handler example_JSON_parse (example_request ''POST'' 200 ''{}'')) = Some (JObj []) \<and>
   \<not> is_structured_result (body (serve_handler example_JSON_parse (example_request ''POST'' 200 ''{}''))) \<and>
   \<not> is_error_object (body (serve_handler example_JSON_parse (example_request ''POST'' 200 ''{}''))) \<and>
   body (serve_handler example_JSON_parse (example_request ''OPTIONS'' 200 ''{}'')) = None"
  by code_simp

section \<open>Ticket codes along the histories of the table\<close>

lemma update_row_updated:
  assumes "update_row d uid now u r = Inr (updated new)"
  shows "id_col new = id_col r" and "created_at new = created_at r"
    and "complaint_id new = (case upd_complaint_id u of None \<Rightarrow> complaint_id r | Some v \<Rightarrow> v)"
    and "complaint_id new = complaint_id r \<or>
         complaint_id new \<notin> set (map complaint_id (complaints d))"
proof -
  from assms obtain assigned where s: "set_columns u r = Inr assigned"
    by (cases "set_columns u r") (simp_all add: update_row_Inl)
  from assms have new: "new = update_updated_at_column now assigned"
    and code: "complaint_id assigned = complaint_id r \<or>
         complaint_id assigned \<notin> set (map complaint_id (complaints d))"
    unfolding update_row_assigned [OF s] by (auto split: if_splits)
  from new set_columns_fields(6) [OF s] show "id_col new = id_col r"
    by (simp add: update_updated_at_column_def)
  from new set_columns_fields(7) [OF s] show "created_at new = created_at r"
    by (simp add: update_updated_at_column_def)
  from new set_columns_fields(3) [OF s]
  show "complaint_id new = (case upd_complaint_id u of None \<Rightarrow> complaint_id r | Some v \<Rightarrow> v)"
    by (simp add: update_updated_at_column_def)
  from new code show "complaint_id new = complaint_id r \<or>
         complaint_id new \<notin> set (map complaint_id (complaints d))"
    by (simp add: update_updated_at_column_def)
qed

lemma update_rows_Cons:
  "(update_rows d uid now target u (r # rs) = Inr rs') =
   (\<exists>res rs''. (if id_col r = target then update_row d uid now u r else Inr skipped) = Inr res \<and>
      update_rows d uid now target u rs = Inr rs'' \<and>
      rs' = (case res of skipped \<Rightarrow> r | updated new \<Rightarrow> new) # rs'')"
  by (auto split: sum.splits)

lemma update_rows_keeps:
  assumes "update_rows d uid now target u rs = Inr rs'" and "upd_complaint_id u = None"
  shows "map (\<lambda>r. (created_at r, complaint_id r)) rs' = map (\<lambda>r. (created_at r, complaint_id r)) rs"
  using assms
proof (induction rs arbitrary: rs')
  case Nil
  then show ?case by simp
next
  case (Cons r rs)
  from Cons.prems(1) obtain res rs''
    where res: "(if id_col r = target then update_row d uid now u r else Inr skipped) = Inr res"
      and tl: "update_rows d uid now target u rs = Inr rs''"
      and rs': "rs' = (case res of skipped \<Rightarrow> r | updated new \<Rightarrow> new) # rs''"
    unfolding update_rows_Cons by blast
  from Cons.IH [OF tl Cons.prems(2)]
  have ih: "map (\<lambda>r. (created_at r, complaint_id r)) rs''
    = map (\<lambda>r. (created_at r, complaint_id r)) rs" .
  show ?case
  proof (cases res)
    case skipped
    with rs' ih show ?thesis by simp
  next
    case (updated new)
    with res have "update_row d uid now u r = Inr (updated new)"
      by (simp split: if_splits)
    from update_row_updated(2,3) [OF this] Cons.prems(2)
    have "created_at new = created_at r" and "complaint_id new = complaint_id r"
      by simp_all
    with updated rs' ih show ?thesis by simp
  qed
qed

lemma updateComplaint_cases:
  assumes "updateComplaint uid now target new_status response d = (d', t)"
  shows "d' = d \<or>
    update_complaints uid now target
      (no_change\<lparr>upd_status := Some new_status, upd_admin_response := Some response\<rparr>) d = Inr d'"
  using assms by (auto simp: updateComplaint_def split: sum.splits)

lemma updateComplaint_keeps:
  assumes "updateComplaint uid now target new_status response d = (d', t)"
  shows "map (\<lambda>r. (created_at r, complaint_id r)) (complaints d')
    = map (\<lambda>r. (created_at r, complaint_id r)) (complaints d)"
proof -
  from updateComplaint_cases [OF assms] show ?thesis
  proof
    assume "d' = d"
    then show ?thesis by simp
  next
    assume "update_complaints uid now target
      (no_change\<lparr>upd_status := Some new_status, upd_admin_response := Some response\<rparr>) d = Inr d'"
    then obtain rs where rs: "update_rows d uid now target
        (no_change\<lparr>upd_status := Some new_status, upd_admin_response := Some response\<rparr>)
        (complaints d) = Inr rs"
      and d': "complaints d' = rs"
      by (auto simp: update_complaints_def split: sum.splits)
    from update_rows_keeps [OF rs] d' show ?thesis by (simp add: no_change_def)
  qed
qed

lemma codes_of_pairs:
  "map complaint_id rows = map snd (map (\<lambda>r. (created_at r, complaint_id r)) rows)"
  by (simp add: o_def)

lemma codes_of_year_of_pairs:
  "map complaint_id (rows_of_year y rows)
     = map snd (filter (\<lambda>p. ts_year (fst p) = y) (map (\<lambda>r. (created_at r, complaint_id r)) rows))"
  by (simp add: rows_of_year_def filter_map o_def)

lemma same_pairs_same_codes:
  assumes "map (\<lambda>r. (created_at r, complaint_id r)) rows'
    = map (\<lambda>r. (created_at r, complaint_id r)) rows"
  shows "map complaint_id rows' = map complaint_id rows"
    and "map complaint_id (rows_of_year y rows') = map complaint_id (rows_of_year y rows)"
    and "length (rows_of_year y rows') = length (rows_of_year y rows)"
proof -
  show "map complaint_id rows' = map complaint_id rows"
    using assms codes_of_pairs by metis
  show c: "map complaint_id (rows_of_year y rows') = map complaint_id (rows_of_year y rows)"
    using assms codes_of_year_of_pairs by metis
  from c have "length (map complaint_id (rows_of_year y rows'))
    = length (map complaint_id (rows_of_year y rows))"
    by simp
  then show "length (rows_of_year y rows') = length (rows_of_year y rows)" by simp
qed

text \<open>An update of the row with a key that no row has changes nothing.\<close>

lemma update_rows_no_target:
  "target \<notin> set (map id_col rs) \<Longrightarrow> update_rows d uid now target u rs = Inr rs"
  by (induction rs) simp_all

text \<open>
  The keys are unique, so an update reaches one row at most; its new ticket code is its
  old one or one that is stored nowhere in the table \<open>d\<close>.
\<close>

lemma update_rows_distinct:
  assumes "update_rows d uid now target u rs = Inr rs'"
    and "distinct (map id_col rs)" and "distinct (map complaint_id rs)"
    and "set (map complaint_id rs) \<subseteq> set (map complaint_id (complaints d))"
  shows "map id_col rs' = map id_col rs \<and> distinct (map complaint_id rs') \<and>
    (\<forall>c \<in> set (map complaint_id rs').
       c \<in> set (map complaint_id rs) \<or> c \<notin> set (map complaint_id (complaints d)))"
  using assms
proof (induction rs arbitrary: rs')
  case Nil
  then show ?case by simp
next
  case (Cons r rs)
  from Cons.prems(1) obtain res rs''
    where res: "(if id_col r = target then update_row d uid now u r else Inr skipped) = Inr res"
      and tl: "update_rows d uid now target u rs = Inr rs''"
      and rs': "rs' = (case res of skipped \<Rightarrow> r | updated new \<Rightarrow> new) # rs''"
    unfolding update_rows_Cons by blast
  from Cons.prems have d_ids: "distinct (map id_col rs)" and d_codes: "distinct (map complaint_id rs)"
    and sub: "set (map complaint_id rs) \<subseteq> set (map complaint_id (complaints d))"
    and head_id: "id_col r \<notin> set (map id_col rs)"
    and head_code: "complaint_id r \<notin> set (map complaint_id rs)"
    and head_in: "complaint_id r \<in> set (map complaint_id (complaints d))"
    by simp_all
  from Cons.IH [OF tl d_ids d_codes sub]
  have ih_ids: "map id_col rs'' = map id_col rs"
    and ih_distinct: "distinct (map complaint_id rs'')"
    and ih_codes: "\<forall>c \<in> set (map complaint_id rs'').
       c \<in> set (map complaint_id rs) \<or> c \<notin> set (map complaint_id (complaints d))"
    by simp_all
  show ?case
  proof (cases res)
    case skipped
    from ih_codes head_code head_in have "complaint_id r \<notin> set (map complaint_id rs'')"
      by blast
    with skipped rs' ih_ids ih_distinct ih_codes show ?thesis by auto
  next
    case (updated new)
    with res have target: "id_col r = target" and upd: "update_row d uid now u r = Inr (updated new)"
      by (simp_all split: if_splits)
    from target head_id have "target \<notin> set (map id_col rs)" by simp
    from update_rows_no_target [OF this] tl have same: "rs'' = rs" by simp
    note new = update_row_updated [OF upd]
    from new(4) head_code sub have "complaint_id new \<notin> set (map complaint_id rs)"
      by auto
    with updated rs' same new(1) new(4) d_codes show ?thesis by auto
  qed
qed

lemma update_complaints_distinct:
  assumes "update_complaints uid now target u d = Inr d'"
    and "distinct (map id_col (complaints d))" and "distinct (map complaint_id (complaints d))"
  shows "distinct (map id_col (complaints d')) \<and> distinct (map complaint_id (complaints d'))"
proof -
  from assms(1) obtain rs where rs: "update_rows d uid now target u (complaints d) = Inr rs"
    and d': "complaints d' = rs"
    by (auto simp: update_complaints_def split: sum.splits)
  from update_rows_distinct [OF rs assms(2) assms(3)] d' assms(2) show ?thesis by simp
qed

lemma inserted_keys_and_codes:
  "inserted d \<Longrightarrow>
     distinct (map id_col (complaints d)) \<and> distinct (map complaint_id (complaints d))"
proof (induction rule: inserted.induct)
  case (inserted_empty d)
  then show ?case by simp
next
  case (inserted_other d d')
  then show ?case by simp
next
  case (inserted_insert d uid now fresh visible p d')
  then show ?case by (auto simp: insert_complaint_Inr)
next
  case (inserted_update d uid now target u d')
  then show ?case by (auto dest: update_complaints_distinct)
next
  case (inserted_delete d d' deleted_user)
  then show ?case by (simp add: distinct_map_filter)
qed

lemma submitted_inserted: "submitted d \<Longrightarrow> inserted d"
proof (induction rule: submitted.induct)
  case (submitted_empty d)
  then show ?case by (rule inserted_empty)
next
  case (submitted_other d d')
  then show ?case by (auto intro: inserted_other)
next
  case (submitted_update d uid now target new_status response d' t)
  from updateComplaint_cases [OF submitted_update.hyps(2)] submitted_update.IH
  show ?case by (auto intro: inserted_update)
next
  case (submitted_step d visible user now fresh f ir d' res)
  show ?case
  proof (cases "res = submit_succeeded")
    case True
    with submitted_step.hyps(3) obtain v fd
      where "insert_complaint user now fresh visible (submitted_row user v fd) d = Inr d'"
      by (auto simp: handleSubmit_succeeded)
    with submitted_step.IH show ?thesis
      by (rule inserted_insert)
  next
    case False
    with submitted_step.hyps(3) have "d' = d" by (rule handleSubmit_unchanged)
    with submitted_step.IH show ?thesis by simp
  qed
qed

text \<open>
  What the caller's \<^verbatim>\<open>SELECT\<close> policies show of any earlier state of the table carries
  ticket codes that are, in order, some of the codes stored now.
\<close>

lemma caller_view_codes:
  assumes "prefix (map complaint_id snapshot) (map complaint_id rows)"
  shows "subseq (map complaint_id (caller_view d uid snapshot)) (map complaint_id rows)"
proof -
  have "subseq (caller_view d uid snapshot) snapshot"
    by (simp add: caller_view_def)
  then have "subseq (map complaint_id (caller_view d uid snapshot)) (map complaint_id snapshot)"
    by (rule subseq_map)
  moreover from assms have "subseq (map complaint_id snapshot) (map complaint_id rows)"
    by (rule prefix_imp_subseq)
  ultimately show ?thesis by (rule subseq_order.trans)
qed

lemma code_of_row:
  assumes "sequential_codes rows" and "r \<in> set rows"
  shows "\<exists>n. complaint_id r = ticket_code (ts_year (created_at r)) n"
proof -
  let ?y = "ts_year (created_at r)"
  from assms(2) have "complaint_id r \<in> set (map complaint_id (rows_of_year ?y rows))"
    by (simp add: rows_of_year_def)
  with assms(1) have "complaint_id r \<in> set (map (ticket_code ?y) [1..<Suc (length (rows_of_year ?y rows))])"
    by simp
  then show ?thesis by auto
qed

lemma like_filter_is_year_filter:
  assumes "sequential_codes rows"
  shows "filter (\<lambda>r. prefix (year_prefix y) (complaint_id r)) rows = rows_of_year y rows"
  unfolding rows_of_year_def
proof (rule filter_cong [OF refl])
  fix r
  assume "r \<in> set rows"
  from code_of_row [OF assms this] obtain n
    where "complaint_id r = ticket_code (ts_year (created_at r)) n" ..
  then show "prefix (year_prefix y) (complaint_id r) = (ts_year (created_at r) = y)"
    by (auto simp: prefix_ticket_code)
qed

lemma lpad_1000: "lpad (show_nat 1000) 3 ''0'' = lpad (show_nat 100) 3 ''0''"
  by code_simp

lemma sequential_step:
  assumes inv: "sequential_codes rows"
    and vis: "subseq (map complaint_id visible) (map complaint_id rows)"
    and gen: "generate_complaint_id now visible = Inr (complaint_id r)"
    and new: "complaint_id r \<notin> set (map complaint_id rows)"
    and at: "created_at r = now"
  shows "sequential_codes (rows @ [r])"
proof -
  let ?y = "ts_year now"
  let ?Q = "prefix (year_prefix ?y)"
  let ?k = "length (rows_of_year ?y rows)"
  let ?cnt = "length (filter (\<lambda>r. ?Q (complaint_id r)) visible)"
  from inv have k999: "?k \<le> 999"
    and codes: "map complaint_id (rows_of_year ?y rows) = map (ticket_code ?y) [1..<Suc ?k]"
    by simp_all
  have "filter ?Q (map complaint_id rows) = map complaint_id (rows_of_year ?y rows)"
    using like_filter_is_year_filter [OF inv, of ?y] by (simp add: filter_map o_def)
  moreover have "subseq (filter ?Q (map complaint_id visible)) (filter ?Q (map complaint_id rows))"
    using vis by (rule subseq_filter)
  ultimately have "subseq (filter ?Q (map complaint_id visible)) (map complaint_id (rows_of_year ?y rows))"
    by simp
  then have "length (filter ?Q (map complaint_id visible)) \<le> length (map complaint_id (rows_of_year ?y rows))"
    by (rule list_emb_length)
  moreover have "length (filter ?Q (map complaint_id visible)) = ?cnt"
    by (simp add: filter_map o_def)
  ultimately have le: "?cnt \<le> ?k" by simp
  from gen have c: "complaint_id r = ticket_code ?y (Suc ?cnt)"
    by (simp add: generate_complaint_id_eq split: if_splits)
  have in_rows: "ticket_code ?y n \<in> set (map complaint_id rows)" if "1 \<le> n" and "n \<le> ?k" for n
  proof -
    from that have "n \<in> set [1..<Suc ?k]" by auto
    then have "ticket_code ?y n \<in> set (map (ticket_code ?y) [1..<Suc ?k])"
      by (simp only: set_map) (rule imageI)
    with codes have "ticket_code ?y n \<in> set (map complaint_id (rows_of_year ?y rows))"
      by simp
    then show ?thesis by (auto simp: rows_of_year_def)
  qed
  have eq: "?cnt = ?k"
  proof (rule ccontr)
    assume "?cnt \<noteq> ?k"
    with le have "1 \<le> Suc ?cnt" and "Suc ?cnt \<le> ?k" by simp_all
    from in_rows [OF this] c new show False by simp
  qed
  have lt: "?k < 999"
  proof (rule ccontr)
    assume "\<not> ?k < 999"
    with k999 have k: "?k = 999" by simp
    have "ticket_code ?y 1000 = ticket_code ?y 100"
      by (simp add: ticket_code_def lpad_1000)
    with c eq k have "complaint_id r = ticket_code ?y 100" by simp
    moreover have "ticket_code ?y 100 \<in> set (map complaint_id rows)"
      by (rule in_rows) (simp_all add: k)
    ultimately show False using new by simp
  qed
  show ?thesis
  proof
    fix y
    show "length (rows_of_year y (rows @ [r])) \<le> 999 \<and>
         map complaint_id (rows_of_year y (rows @ [r]))
           = map (ticket_code y) [1..<Suc (length (rows_of_year y (rows @ [r])))]"
    proof (cases "y = ?y")
      case True
      with at have "rows_of_year y (rows @ [r]) = rows_of_year ?y rows @ [r]"
        by (simp add: rows_of_year_def)
      with True codes c eq lt show ?thesis by simp
    next
      case False
      with at have "rows_of_year y (rows @ [r]) = rows_of_year y rows"
        by (simp add: rows_of_year_def)
      with inv show ?thesis by simp
    qed
  qed
qed

lemma submitted_sequential: "submitted d \<Longrightarrow> sequential_codes (complaints d)"
proof (induction rule: submitted.induct)
  case (submitted_empty d)
  then show ?case by (simp add: rows_of_year_def)
next
  case (submitted_other d d')
  then show ?case by simp
next
  case (submitted_update d uid now target new_status response d' t)
  note same = same_pairs_same_codes [OF updateComplaint_keeps [OF submitted_update.hyps(2)]]
  show ?case
  proof
    fix y
    from submitted_update.IH
    have "length (rows_of_year y (complaints d)) \<le> 999 \<and>
      map complaint_id (rows_of_year y (complaints d))
        = map (ticket_code y) [1..<Suc (length (rows_of_year y (complaints d)))]"
      by simp
    with same(2) [where y = y] same(3) [where y = y]
    show "length (rows_of_year y (complaints d')) \<le> 999 \<and>
      map complaint_id (rows_of_year y (complaints d'))
        = map (ticket_code y) [1..<Suc (length (rows_of_year y (complaints d')))]"
      by simp
  qed
next
  case (submitted_step d visible user now fresh f ir d' res)
  show ?case
  proof (cases "res = submit_succeeded")
    case True
    with submitted_step.hyps(3) obtain v fd r
      where r: "new_complaint user now fresh visible (submitted_row user v fd) = Inr r"
        and new: "complaint_id r \<notin> set (map complaint_id (complaints d))"
        and d': "d' = d\<lparr>complaints := complaints d @ [r]\<rparr>"
      by (auto simp: handleSubmit_succeeded insert_complaint_Inr)
    from new_complaint_fields(1) [OF r]
    have gen: "generate_complaint_id now visible = Inr (complaint_id r)"
      by (simp add: submitted_row_def set_complaint_id_def)
    from new_complaint_fields(7) [OF r] have at: "created_at r = now"
      by (simp add: submitted_row_def)
    from sequential_step [OF submitted_step.IH submitted_step.hyps(2) gen new at] d'
    show ?thesis by simp
  next
    case False
    with submitted_step.hyps(3) have "d' = d" by (rule handleSubmit_unchanged)
    with submitted_step.IH show ?thesis by simp
  qed
qed


lemma generated_code_form:
  assumes "generate_complaint_id now rows = Inr c"
  shows "is_ticket_code (ts_year now) c"
proof -
  from assms obtain n where "c = ticket_code (ts_year now) n"
    by (auto simp: generate_complaint_id_eq split: if_splits)
  then show ?thesis by (simp add: is_ticket_code_ticket_code)
qed

lemma ticket_code_below_1000:
  "n < 1000 \<Longrightarrow> ticket_code y n = ''CMP-'' @ year_text y @ ''-'' @ zero_pad_3 (show_nat n)"
  by (simp add: ticket_code_def lpad_short length_show_nat)

text \<open>
  C2, as the code has it. The stored ticket codes are pairwise distinct in every state
  the table reaches by the writes the database admits: inserts of any rows by any caller,
  with or without a supplied code and whatever rows the trigger sees, updates of any
  columns including the ticket code, and the removal of a deleted user's complaints. A
  row whose code is already stored is refused by the unique constraint.

  Every code the trigger assigns has the form \<^verbatim>\<open>CMP-<year>-NNN\<close> with exactly three
  digits.

  When the table is written only by the application, by submissions through the form and
  by admin updates through the dashboard, the codes of the rows created in a year are, in
  the order of creation, \<^verbatim>\<open>CMP-<year>-001\<close>, \<^verbatim>\<open>CMP-<year>-002\<close> and so on: the
  zero-padded sequence numbers from 1 up to the number of rows of the year, which is at
  most 999. This holds also when submissions run beside each other and although the
  trigger counts only the rows the caller may see: a submission whose generated code is
  already stored fails and stores nothing.
\<close>

theorem ticket_codes_distinct_and_sequential:
  "(inserted d \<longrightarrow> distinct (map complaint_id (complaints d))) \<and>
   (submitted d \<longrightarrow>
      distinct (map complaint_id (complaints d)) \<and>
      (\<forall>y. length (rows_of_year y (complaints d)) \<le> 999 \<and>
           map complaint_id (rows_of_year y (complaints d))
             = map (ticket_code y) [1..<Suc (length (rows_of_year y (complaints d)))])) \<and>
   (\<forall>y n. is_ticket_code y (ticket_code y n)) \<and>
   (\<forall>y n. n < 1000 \<longrightarrow> ticket_code y n = ''CMP-'' @ year_text y @ ''-'' @ zero_pad_3 (show_nat n)) \<and>
   (set_complaint_id now rows None = Inr c \<longrightarrow> is_ticket_code (ts_year now) c) \<and>
   (set_complaint_id now rows (Some []) = Inr c \<longrightarrow> is_ticket_code (ts_year now) c) \<and>
   (prefix (map complaint_id snapshot) (map complaint_id (complaints d)) \<longrightarrow>
      subseq (map complaint_id (caller_view d uid snapshot)) (map complaint_id (complaints d)))"
proof (intro conjI impI allI)
  assume "inserted d"
  then show "distinct (map complaint_id (complaints d))"
    by (simp add: inserted_keys_and_codes)
next
  assume "submitted d"
  then have "inserted d" by (rule submitted_inserted)
  then show "distinct (map complaint_id (complaints d))"
    by (simp add: inserted_keys_and_codes)
next
  fix y
  assume "submitted d"
  from submitted_sequential [OF this]
  show "length (rows_of_year y (complaints d)) \<le> 999" by simp
next
  fix y
  assume "submitted d"
  from submitted_sequential [OF this]
  show "map complaint_id (rows_of_year y (complaints d))
    = map (ticket_code y) [1..<Suc (length (rows_of_year y (complaints d)))]"
    by simp
next
  fix y n
  show "is_ticket_code y (ticket_code y n)" by (rule is_ticket_code_ticket_code)
next
  fix y n :: nat
  assume "n < 1000"
  then show "ticket_code y n = ''CMP-'' @ year_text y @ ''-'' @ zero_pad_3 (show_nat n)"
    by (rule ticket_code_below_1000)
next
  assume "set_complaint_id now rows None = Inr c"
  then show "is_ticket_code (ts_year now) c"
    by (simp add: set_complaint_id_def generated_code_form)
next
  assume "set_complaint_id now rows (Some []) = Inr c"
  then show "is_ticket_code (ts_year now) c"
    by (simp add: set_complaint_id_def generated_code_form)
next
  assume "prefix (map complaint_id snapshot) (map complaint_id (complaints d))"
  then show "subseq (map complaint_id (caller_view d uid snapshot)) (map complaint_id (complaints d))"
    by (rule caller_view_codes)
qed

lemma example_second_submission:
  "handleSubmit (Some 1) example_now 11 (complaints example_db_1) example_form example_invoke
     example_db_1 = (example_db_2, submit_succeeded)"
  by code_simp

theorem ticket_codes_distinct_and_sequential_witness:
  "submitted example_db_2 \<and>
   caller_view example_db (Some 1) (complaints example_db) = [] \<and>
   caller_view example_db_1 (Some 1) (complaints example_db_1) = complaints example_db_1 \<and>
   distinct (map complaint_id (complaints example_db_2)) \<and>
   map complaint_id (rows_of_year 2025 (complaints example_db_2)) = [''CMP-2025-001'', ''CMP-2025-002''] \<and>
   is_ticket_code 2025 ''CMP-2025-002'' \<and>
   set_complaint_id example_now (complaints example_db_1) None = Inr ''CMP-2025-002'' \<and>
   handleSubmit (Some 1) example_now 11 [] example_form example_invoke example_db_1
     = (example_db_1, submit_failed) \<and>
   caller_view example_db_1 (Some 3) (complaints example_db_1) = [] \<and>
   handleSubmit (Some 3) example_now 11 (caller_view example_db_1 (Some 3) (complaints example_db_1))
     example_form example_invoke example_db_1
     = (example_db_1, submit_failed)"
proof -
  have v0: "caller_view example_db (Some 1) (complaints example_db) = []"
    by code_simp
  have v1: "caller_view example_db_1 (Some 1) (complaints example_db_1) = complaints example_db_1"
    by code_simp
  have v3: "caller_view example_db_1 (Some 3) (complaints example_db_1) = []"
    by code_simp
  have s0: "submitted example_db"
    by (rule submitted_empty) (simp add: example_db_def)
  have s1: "submitted example_db_1"
    by (rule submitted_step [OF s0 _ example_submission]) simp
  have s2: "submitted example_db_2"
    by (rule submitted_step [OF s1 _ example_second_submission]) simp
  have len: "length (rows_of_year 2025 (complaints example_db_2)) = 2"
    by code_simp
  have codes: "map (ticket_code 2025) [1..<Suc 2] = [''CMP-2025-001'', ''CMP-2025-002'']"
    by code_simp
  have two: "ticket_code 2025 2 = ''CMP-2025-002''"
    by code_simp
  have trig: "set_complaint_id example_now (complaints example_db_1) None = Inr ''CMP-2025-002''"
    by code_simp
  have stale: "handleSubmit (Some 1) example_now 11 [] example_form example_invoke example_db_1
     = (example_db_1, submit_failed)"
    by code_simp
  have other: "handleSubmit (Some 3) example_now 11
     (caller_view example_db_1 (Some 3) (complaints example_db_1))
     example_form example_invoke example_db_1
     = (example_db_1, submit_failed)"
    by code_simp
  note t = ticket_codes_distinct_and_sequential [where d = example_db_2 and now = example_now
      and rows = "complaints example_db_1" and c = "''CMP-2025-002''"]
  from t s2 have a: "distinct (map complaint_id (complaints example_db_2))" by blast
  from t s2 have "map complaint_id (rows_of_year 2025 (complaints example_db_2))
      = map (ticket_code 2025) [1..<Suc (length (rows_of_year 2025 (complaints example_db_2)))]"
    by blast
  with len codes have b: "map complaint_id (rows_of_year 2025 (complaints example_db_2))
      = [''CMP-2025-001'', ''CMP-2025-002'']"
    by simp
  from t have "is_ticket_code 2025 (ticket_code 2025 2)" by blast
  with two have c: "is_ticket_code 2025 ''CMP-2025-002''" by simp
  from s2 v0 v1 a b c trig stale v3 other show ?thesis by blast
qed

text \<open>
  The claim as stated is about every pair of rows created in a year. A row inserted with
  the code \<^verbatim>\<open>X\<close> keeps it, since the trigger only generates a code where none is
  supplied; with the row of a following submission it is a pair of rows created in 2025
  of which one code is not of the form \<^verbatim>\<open>CMP-2025-NNN\<close>. And the owner of a Pending
  complaint may rewrite its ticket code, here from \<^verbatim>\<open>CMP-2025-001\<close> to
  \<^verbatim>\<open>CMP-2025-777\<close>, after which the codes of the year are no longer the sequence numbers
  from 1.
\<close>

theorem ticket_codes_counterexample:
  "insert_complaint (Some 1) example_now 10 []
     ((submitted_row (Some 1) example_form example_data)\<lparr>ins_complaint_id := Some ''X''\<rparr>) example_db
     = Inr (example_db\<lparr>complaints := [example_complaint\<lparr>complaint_id := ''X''\<rparr>]\<rparr>) \<and>
   handleSubmit (Some 1) example_now 11 [example_complaint\<lparr>complaint_id := ''X''\<rparr>] example_form
     example_invoke (example_db\<lparr>complaints := [example_complaint\<lparr>complaint_id := ''X''\<rparr>]\<rparr>)
     = (example_db\<lparr>complaints :=
          [example_complaint\<lparr>complaint_id := ''X''\<rparr>, example_complaint\<lparr>id_col := 11\<rparr>]\<rparr>,
        submit_succeeded) \<and>
   \<not> is_ticket_code 2025 ''X'' \<and>
   update_complaints (Some 1) example_now 10 (no_change\<lparr>upd_complaint_id := Some ''CMP-2025-777''\<rparr>)
     example_db_1
     = Inr (example_db\<lparr>complaints := [example_complaint\<lparr>complaint_id := ''CMP-2025-777''\<rparr>]\<rparr>) \<and>
   ticket_code 2025 1 = ''CMP-2025-001''"
  by code_simp

end
